theory Spec2Isabelle
  imports Main "HOL-Library.Finite_Map"
begin

section \<open>Values, documents and request parameters\<close>

text \<open>
  The free-form content of a dashboard (layout blocks, variables, settings) is JSON-like
  Python data. Values are taken up to Python's \<open>==\<close>: booleans are the numbers 1 and 0,
  a dict is a finite map (its equality ignores insertion order), a list is a list.
\<close>

datatype pyval =
    PNone
  | PInt int
  | PStr string
  | PList "pyval list"
  | PDict "(string, pyval) fmap"

type_synonym pydict = "(string, pyval) fmap"

datatype viewers = PUBLIC | PRIVATE

datatype error =
    ERROR_PERMISSION_DENIED
  | ERROR_LATEST_VERSION int
  | ERROR_NOT_FOUND

text \<open>
  Modelled from the spec: the \<open>Dashboard\<close> document class is not part of the sources at
  hand; its attributes are those of section 3 of the specification (\<open>created_at\<close>, a
  timestamp, is left out). \<open>settings\<close> may be absent; \<open>user_id\<close> may be null;
  \<open>viewers\<close> is \<open>None\<close> on a record that does not carry the field.
\<close>

record dashboard =
  dashboard_id :: string
  name :: string
  dashboard_type :: string
  viewers :: "viewers option"
  version :: int
  layouts :: "pyval list"
  variables :: pydict
  settings :: "pydict option"
  variables_schema :: pydict
  labels :: "string list"
  tags :: pydict
  resource_group :: string
  user_id :: "string option"
  project_id :: "string option"
  workspace_id :: "string option"
  domain_id :: string

text \<open>\<open>DashboardVersion\<close> of \<open>model/dashboard_version_model.py\<close> (without \<open>created_at\<close>).\<close>

record dashboard_version =
  v_dashboard_id :: string
  v_version :: int
  v_layouts :: "pyval list"
  v_variables :: pydict
  v_settings :: pydict
  v_variables_schema :: pydict
  v_domain_id :: string

text \<open>The two collections of the document store.\<close>

record store =
  dashboards :: "dashboard list"
  versions :: "dashboard_version list"

text \<open>A query of the document store: its \<open>filter\<close> list (when the key is present) and its other keys.\<close>

record filter_clause =
  f_k :: string
  f_v :: pyval
  f_o :: string

record query =
  q_filter :: "filter_clause list option"
  q_other :: pydict

text \<open>
  The \<open>params\<close> dict of a request. An optional key is \<open>None\<close> when the dict does not
  hold it. The three version-bearing keys come first: they are the part of \<open>params\<close> that
  \<open>create\<close> shares with the other operations. \<open>p_version\<close> is read by the version
  operations only.
\<close>

record version_fields =
  p_layouts :: "pyval list option"
  p_variables :: "pydict option"
  p_variables_schema :: "pydict option"

record params = version_fields +
  p_dashboard_id :: string
  p_domain_id :: string
  p_version :: int
  p_name :: "string option"
  p_settings :: "pydict option"
  p_labels :: "string list option"
  p_tags :: "pydict option"
  p_only :: "string list option"
  p_query :: "query option"

record create_params = version_fields +
  c_name :: string
  c_dashboard_type :: string
  c_settings :: "pydict option"
  c_labels :: "string list option"
  c_tags :: "pydict option"
  c_resource_group :: string
  c_user_id :: string
  c_project_id :: "string option"
  c_workspace_id :: "string option"
  c_domain_id :: string

text \<open>The keys of \<open>params\<close>, for \<open>key in params\<close>.\<close>

definition keys :: "params \<Rightarrow> string list" where
  "keys params =
     (if p_layouts params = None then [] else [''layouts'']) @
     (if p_variables params = None then [] else [''variables'']) @
     (if p_variables_schema params = None then [] else [''variables_schema'']) @
     [''dashboard_id'', ''domain_id'', ''version''] @
     (if p_name params = None then [] else [''name'']) @
     (if p_settings params = None then [] else [''settings'']) @
     (if p_labels params = None then [] else [''labels'']) @
     (if p_tags params = None then [] else [''tags'']) @
     (if p_only params = None then [] else [''only'']) @
     (if p_query params = None then [] else [''query''])"

section \<open>The managers\<close>

text \<open>
  \<open>DashboardManager\<close> and \<open>DashboardVersionManager\<close> are not among the sources at hand
  (only their callers are). Their operations are modelled from sections 4.2 and 4.3 of the
  specification, over the two collections.
\<close>

definition same_dashboard :: "string \<Rightarrow> string \<Rightarrow> dashboard \<Rightarrow> bool" where
  "same_dashboard did dmn d = (dashboard_id d = did \<and> domain_id d = dmn)"

text \<open>
  Modelled from the spec: the field projection of a fetch is missing with the managers.
  A fetch with a projection returns the record with the named fields only. A field that is
  not named is not loaded: it reads as \<open>None\<close> where the field can be absent, and as the
  empty value of its type otherwise (the defaults of a document class, as \<open>default=[]\<close>
  and \<open>default={}\<close> in \<open>DashboardVersion\<close>).
\<close>

definition project_dashboard :: "string list \<Rightarrow> dashboard \<Rightarrow> dashboard" where
  "project_dashboard only vo =
     \<lparr>dashboard_id = (if ''dashboard_id'' \<in> set only then dashboard_id vo else []),
      name = (if ''name'' \<in> set only then name vo else []),
      dashboard_type = (if ''dashboard_type'' \<in> set only then dashboard_type vo else []),
      viewers = (if ''viewers'' \<in> set only then viewers vo else None),
      version = (if ''version'' \<in> set only then version vo else 0),
      layouts = (if ''layouts'' \<in> set only then layouts vo else []),
      variables = (if ''variables'' \<in> set only then variables vo else fmempty),
      settings = (if ''settings'' \<in> set only then settings vo else None),
      variables_schema =
        (if ''variables_schema'' \<in> set only then variables_schema vo else fmempty),
      labels = (if ''labels'' \<in> set only then labels vo else []),
      tags = (if ''tags'' \<in> set only then tags vo else fmempty),
      resource_group = (if ''resource_group'' \<in> set only then resource_group vo else []),
      user_id = (if ''user_id'' \<in> set only then user_id vo else None),
      project_id = (if ''project_id'' \<in> set only then project_id vo else None),
      workspace_id = (if ''workspace_id'' \<in> set only then workspace_id vo else None),
      domain_id = (if ''domain_id'' \<in> set only then domain_id vo else [])\<rparr>"

text \<open>
  Modelled from the spec: \<open>DashboardManager.get_domain_dashboard\<close> is missing.
  \<open>get(dashboard_id, domain_id, projection?) -> DashboardRecord | NotFound\<close>: the record of
  that key, in full when no projection is given and projected otherwise.
\<close>

definition get_domain_dashboard ::
  "string \<Rightarrow> string \<Rightarrow> string list option \<Rightarrow> store \<Rightarrow> error + dashboard" where
  "get_domain_dashboard did dmn only s =
     (case find (same_dashboard did dmn) (dashboards s) of
        None \<Rightarrow> Inl ERROR_NOT_FOUND
      | Some dashboard_vo \<Rightarrow>
          (case only of
             None \<Rightarrow> Inr dashboard_vo
           | Some field_names \<Rightarrow> Inr (project_dashboard field_names dashboard_vo)))"

text \<open>
  Writing a changed document back in place of the stored one. A document is addressed by
  its dashboard id and domain id (unique per domain scope, section 3 of the specification).
\<close>

definition save_dashboard :: "dashboard \<Rightarrow> store \<Rightarrow> store" where
  "save_dashboard vo s =
     s\<lparr>dashboards :=
         map (\<lambda>d. if same_dashboard (dashboard_id vo) (domain_id vo) d then vo else d)
           (dashboards s)\<rparr>"

text \<open>
  Modelled from the spec: \<open>DashboardManager.create_domain_dashboard\<close> is missing.
  \<open>create(fields) -> DashboardRecord\<close>: persists a new record, whose \<open>version\<close> is
  absent/zero until the first version-worthy write. The identifier and the \<open>viewers\<close>
  value are not passed by the service: they are the arguments \<open>new_id\<close> and \<open>vw\<close>.
\<close>

definition create_domain_dashboard ::
  "string \<Rightarrow> viewers \<Rightarrow> create_params \<Rightarrow> store \<Rightarrow> dashboard \<times> store" where
  "create_domain_dashboard new_id vw params s =
     (let dashboard_vo =
        \<lparr>dashboard_id = new_id,
         name = c_name params,
         dashboard_type = c_dashboard_type params,
         viewers = Some vw,
         version = 0,
         layouts = (case p_layouts params of Some l \<Rightarrow> l | None \<Rightarrow> []),
         variables = (case p_variables params of Some m \<Rightarrow> m | None \<Rightarrow> fmempty),
         settings = c_settings params,
         variables_schema = (case p_variables_schema params of Some m \<Rightarrow> m | None \<Rightarrow> fmempty),
         labels = (case c_labels params of Some l \<Rightarrow> l | None \<Rightarrow> []),
         tags = (case c_tags params of Some m \<Rightarrow> m | None \<Rightarrow> fmempty),
         resource_group = c_resource_group params,
         user_id = Some (c_user_id params),
         project_id = c_project_id params,
         workspace_id = c_workspace_id params,
         domain_id = c_domain_id params\<rparr>
      in (dashboard_vo, s\<lparr>dashboards := dashboards s @ [dashboard_vo]\<rparr>))"

text \<open>
  Modelled from the spec: \<open>DashboardManager.increase_version\<close> is missing.
  \<open>increase_version(record)\<close>: increments \<open>record.version\<close> by 1 and persists.
\<close>

definition increase_version :: "dashboard \<Rightarrow> store \<Rightarrow> dashboard \<times> store" where
  "increase_version dashboard_vo s =
     (let vo = dashboard_vo\<lparr>version := version dashboard_vo + 1\<rparr>
      in (vo, save_dashboard vo s))"

text \<open>
  Modelled from the spec: \<open>DashboardManager.update_domain_dashboard_by_vo\<close> is missing.
  \<open>update(record, patch) -> DashboardRecord\<close>: applies a partial field patch. The fields
  of a record that a patch can carry are \<open>name\<close>, \<open>layouts\<close>, \<open>variables\<close>, \<open>settings\<close>,
  \<open>variables_schema\<close>, \<open>labels\<close> and \<open>tags\<close>; the request keys \<open>dashboard_id\<close>,
  \<open>domain_id\<close> and \<open>version\<close> are not patched (the version counter changes through
  \<open>increase_version\<close> alone).
\<close>

definition update_domain_dashboard_by_vo :: "params \<Rightarrow> dashboard \<Rightarrow> store \<Rightarrow> dashboard \<times> store" where
  "update_domain_dashboard_by_vo params dashboard_vo s =
     (let vo = dashboard_vo
        \<lparr>name := (case p_name params of Some n \<Rightarrow> n | None \<Rightarrow> name dashboard_vo),
         layouts := (case p_layouts params of Some l \<Rightarrow> l | None \<Rightarrow> layouts dashboard_vo),
         variables := (case p_variables params of Some m \<Rightarrow> m | None \<Rightarrow> variables dashboard_vo),
         settings := (case p_settings params of Some m \<Rightarrow> Some m | None \<Rightarrow> settings dashboard_vo),
         variables_schema :=
           (case p_variables_schema params of Some m \<Rightarrow> m | None \<Rightarrow> variables_schema dashboard_vo),
         labels := (case p_labels params of Some l \<Rightarrow> l | None \<Rightarrow> labels dashboard_vo),
         tags := (case p_tags params of Some m \<Rightarrow> m | None \<Rightarrow> tags dashboard_vo)\<rparr>
      in (vo, save_dashboard vo s))"

text \<open>
  Modelled from the spec: \<open>DashboardManager.delete_by_domain_dashboard_vo\<close> is missing.
  \<open>delete(record)\<close>: removes permanently.
\<close>

definition delete_by_domain_dashboard_vo :: "dashboard \<Rightarrow> store \<Rightarrow> store" where
  "delete_by_domain_dashboard_vo dashboard_vo s =
     s\<lparr>dashboards :=
         filter (\<lambda>d. \<not> same_dashboard (dashboard_id dashboard_vo) (domain_id dashboard_vo) d)
           (dashboards s)\<rparr>"

text \<open>
  Modelled from the spec: \<open>DashboardVersionManager.create_version_by_domain_dashboard_vo\<close>
  is missing. \<open>create_snapshot(record, fields)\<close>: builds a snapshot using \<open>record.version\<close>
  and the three version-bearing fields drawn from the patch, falling back to the record's
  current value for any field not present in the patch. \<open>settings\<close> keeps the default of
  the model class.
\<close>

definition create_version_by_domain_dashboard_vo ::
  "dashboard \<Rightarrow> 'a version_fields_scheme \<Rightarrow> store \<Rightarrow> dashboard_version \<times> store" where
  "create_version_by_domain_dashboard_vo dashboard_vo params s =
     (let version_vo =
        \<lparr>v_dashboard_id = dashboard_id dashboard_vo,
         v_version = version dashboard_vo,
         v_layouts = (case p_layouts params of Some l \<Rightarrow> l | None \<Rightarrow> layouts dashboard_vo),
         v_variables = (case p_variables params of Some m \<Rightarrow> m | None \<Rightarrow> variables dashboard_vo),
         v_settings = fmempty,
         v_variables_schema =
           (case p_variables_schema params of Some m \<Rightarrow> m | None \<Rightarrow> variables_schema dashboard_vo),
         v_domain_id = domain_id dashboard_vo\<rparr>
      in (version_vo, s\<lparr>versions := versions s @ [version_vo]\<rparr>))"

definition same_version :: "string \<Rightarrow> int \<Rightarrow> string \<Rightarrow> dashboard_version \<Rightarrow> bool" where
  "same_version did ver dmn v = (v_dashboard_id v = did \<and> v_version v = ver \<and> v_domain_id v = dmn)"

text \<open>
  Modelled from the spec: \<open>DashboardVersionManager.get_version\<close> is missing.
  \<open>get(dashboard_id, version, domain_id, projection?) -> VersionSnapshot | NotFound\<close>.
  The service reads a fetched snapshot in \<open>revert_version\<close> alone, which passes no
  projection; the projection of a snapshot is not interpreted.
\<close>

definition version_mgr_get_version ::
  "string \<Rightarrow> int \<Rightarrow> string \<Rightarrow> string list option \<Rightarrow> store \<Rightarrow> error + dashboard_version" where
  "version_mgr_get_version did ver dmn only s =
     (case find (same_version did ver dmn) (versions s) of
        None \<Rightarrow> Inl ERROR_NOT_FOUND
      | Some version_vo \<Rightarrow> Inr version_vo)"

text \<open>
  Modelled from the spec: \<open>DashboardVersionManager.delete_version\<close> is missing.
  \<open>delete_one(dashboard_id, version, domain_id)\<close>: fails with \<open>LatestVersionError\<close> if
  \<open>version\<close> equals the owning record's current \<open>version\<close>; otherwise the snapshot of
  that key is fetched and removed.
\<close>

definition version_mgr_delete_version ::
  "string \<Rightarrow> int \<Rightarrow> string \<Rightarrow> store \<Rightarrow> error + (unit \<times> store)" where
  "version_mgr_delete_version did ver dmn s =
     (if (case find (same_dashboard did dmn) (dashboards s) of
            None \<Rightarrow> False
          | Some d \<Rightarrow> version d = ver)
      then Inl (ERROR_LATEST_VERSION ver)
      else
        (case version_mgr_get_version did ver dmn None s of
           Inl e \<Rightarrow> Inl e
         | Inr version_vo \<Rightarrow> Inr ((), s\<lparr>versions := remove1 version_vo (versions s)\<rparr>)))"

text \<open>
  Modelled from the spec: \<open>DashboardVersionManager.filter_versions\<close> and
  \<open>delete_versions_by_domain_dashboard_version_vos\<close> are missing. \<open>delete_all(snapshots)\<close>:
  used only during full record deletion; unconditional.
\<close>

definition filter_versions :: "string \<Rightarrow> store \<Rightarrow> dashboard_version list" where
  "filter_versions did s = filter (\<lambda>v. v_dashboard_id v = did) (versions s)"

definition delete_versions_by_domain_dashboard_version_vos ::
  "dashboard_version list \<Rightarrow> store \<Rightarrow> store" where
  "delete_versions_by_domain_dashboard_version_vos vos s =
     s\<lparr>versions := filter (\<lambda>v. v \<notin> set vos) (versions s)\<rparr>"

section \<open>The service\<close>

text \<open>
  \<open>DashboardService\<close> of \<open>service/dashboard_service.py\<close>. \<open>caller\<close> is
  \<open>self.transaction.get_meta("user_id")\<close>. The decorators of a method (\<open>transaction\<close>,
  \<open>check_required\<close>, \<open>append_query_filter\<close>, \<open>append_keyword_filter\<close>) belong to the
  framework and run before its body: \<open>params\<close> is what the body receives, with the required
  keys present. An operation that raises returns \<open>Inl\<close> of
  the error, and one that returns gives its value with the store it leaves (\<open>()\<close> for
  Python's \<open>None\<close>). Every raise of the service comes before its first write, so an
  operation that raises leaves the store as it was: \<open>store_after\<close>.
\<close>

definition store_after :: "error + ('a \<times> store) \<Rightarrow> store \<Rightarrow> store" where
  "store_after r s = (case r of Inl e \<Rightarrow> s | Inr (x, s') \<Rightarrow> s')"

definition merge_settings :: "pydict option \<Rightarrow> pydict \<Rightarrow> pydict" where
  "merge_settings old_settings new_settings =
     (case old_settings of
        None \<Rightarrow> new_settings
      | Some old \<Rightarrow> if old \<noteq> fmempty then old ++\<^sub>f new_settings else new_settings)"

text \<open>The result is \<open>Some True\<close>, \<open>Some False\<close> or Python's \<open>None\<close> (no \<open>return\<close> reached).\<close>

definition has_version_key_in_params :: "dashboard \<Rightarrow> params \<Rightarrow> string list \<Rightarrow> bool option" where
  "has_version_key_in_params dashboard_vo params version_change_keys =
     (if list_ex (\<lambda>key. key \<noteq> [])
           (filter (\<lambda>key. key \<in> set version_change_keys) (keys params))
      then
        (if (case p_layouts params of
               None \<Rightarrow> False
             | Some layouts_from_params \<Rightarrow>
                 layouts_from_params \<noteq> [] \<and> layouts dashboard_vo \<noteq> layouts_from_params)
         then Some True
         else if (case p_variables params of
               None \<Rightarrow> False
             | Some options_from_params \<Rightarrow>
                 options_from_params \<noteq> fmempty \<and> variables dashboard_vo \<noteq> options_from_params)
         then Some True
         else if (case p_variables_schema params of
               None \<Rightarrow> False
             | Some schema_from_params \<Rightarrow>
                 schema_from_params \<noteq> fmempty \<and> schema_from_params \<noteq> variables_schema dashboard_vo)
         then Some True
         else Some False)
      else None)"

definition create ::
  "string \<Rightarrow> viewers \<Rightarrow> create_params \<Rightarrow> store \<Rightarrow> error + (dashboard \<times> store)" where
  "create new_id vw params s =
     (let (dashboard_vo, s1) = create_domain_dashboard new_id vw params s
      in if p_layouts params \<noteq> None \<or> p_variables params \<noteq> None \<or> p_variables_schema params \<noteq> None
         then Inr (dashboard_vo, snd (create_version_by_domain_dashboard_vo dashboard_vo params s1))
         else Inr (dashboard_vo, s1))"

definition update :: "string option \<Rightarrow> params \<Rightarrow> store \<Rightarrow> error + (dashboard \<times> store)" where
  "update caller params0 s =
     (case get_domain_dashboard (p_dashboard_id params0) (p_domain_id params0) None s of
        Inl e \<Rightarrow> Inl e
      | Inr dashboard_vo \<Rightarrow>
          let params1 =
                (if p_name params0 = None then params0\<lparr>p_name := Some (name dashboard_vo)\<rparr>
                 else params0)
          in
          if viewers dashboard_vo = Some PRIVATE \<and> user_id dashboard_vo \<noteq> caller
          then Inl ERROR_PERMISSION_DENIED
          else
            let params =
                  (case p_settings params1 of
                     None \<Rightarrow> params1
                   | Some new_settings \<Rightarrow>
                       params1\<lparr>p_settings :=
                         Some (merge_settings (settings dashboard_vo) new_settings)\<rparr>)
            in
            if has_version_key_in_params dashboard_vo params
                 [''layouts'', ''variables'', ''variables_schema''] = Some True
            then
              let (vo1, s1) = increase_version dashboard_vo s;
                  (version_vo, s2) = create_version_by_domain_dashboard_vo vo1 params s1
              in Inr (update_domain_dashboard_by_vo params vo1 s2)
            else Inr (update_domain_dashboard_by_vo params dashboard_vo s))"

definition delete :: "string option \<Rightarrow> params \<Rightarrow> store \<Rightarrow> error + (unit \<times> store)" where
  "delete caller params s =
     (case get_domain_dashboard (p_dashboard_id params) (p_domain_id params) None s of
        Inl e \<Rightarrow> Inl e
      | Inr dashboard_vo \<Rightarrow>
          if viewers dashboard_vo = Some PRIVATE \<and> user_id dashboard_vo \<noteq> caller
          then Inl ERROR_PERMISSION_DENIED
          else
            let domain_dashboard_version_vos = filter_versions (dashboard_id dashboard_vo) s;
                s1 = (if domain_dashboard_version_vos \<noteq> []
                      then delete_versions_by_domain_dashboard_version_vos
                             domain_dashboard_version_vos s
                      else s)
            in Inr ((), delete_by_domain_dashboard_vo dashboard_vo s1))"

definition get :: "string option \<Rightarrow> params \<Rightarrow> store \<Rightarrow> error + dashboard" where
  "get caller params s =
     (case get_domain_dashboard (p_dashboard_id params) (p_domain_id params) (p_only params) s of
        Inl e \<Rightarrow> Inl e
      | Inr dashboard_vo \<Rightarrow>
          if viewers dashboard_vo = Some PRIVATE \<and> user_id dashboard_vo \<noteq> caller
          then Inl ERROR_PERMISSION_DENIED
          else Inr dashboard_vo)"

definition delete_version ::
  "string option \<Rightarrow> params \<Rightarrow> store \<Rightarrow> error + (unit \<times> store)" where
  "delete_version caller params s =
     (case get_domain_dashboard (p_dashboard_id params) (p_domain_id params) None s of
        Inl e \<Rightarrow> Inl e
      | Inr dashboard_vo \<Rightarrow>
          if viewers dashboard_vo = Some PRIVATE \<and> user_id dashboard_vo \<noteq> caller
          then Inl ERROR_PERMISSION_DENIED
          else
            let current_version = version dashboard_vo
            in if current_version = p_version params
               then Inl (ERROR_LATEST_VERSION (p_version params))
               else version_mgr_delete_version
                      (p_dashboard_id params) (p_version params) (p_domain_id params) s)"

definition revert_version :: "string option \<Rightarrow> params \<Rightarrow> store \<Rightarrow> error + (dashboard \<times> store)" where
  "revert_version caller params0 s =
     (case get_domain_dashboard (p_dashboard_id params0) (p_domain_id params0) None s of
        Inl e \<Rightarrow> Inl e
      | Inr dashboard_vo \<Rightarrow>
          if viewers dashboard_vo = Some PRIVATE \<and> user_id dashboard_vo \<noteq> caller
          then Inl ERROR_PERMISSION_DENIED
          else
            (case version_mgr_get_version
                    (p_dashboard_id params0) (p_version params0) (p_domain_id params0) None s of
               Inl e \<Rightarrow> Inl e
             | Inr version_vo \<Rightarrow>
                 let params = params0
                       \<lparr>p_layouts := Some (v_layouts version_vo),
                        p_variables := Some (v_variables version_vo),
                        p_variables_schema := Some (v_variables_schema version_vo)\<rparr>;
                     (vo1, s1) = increase_version dashboard_vo s;
                     (new_version_vo, s2) = create_version_by_domain_dashboard_vo vo1 params s1
                 in Inr (update_domain_dashboard_by_vo params vo1 s2)))"

definition get_version :: "string option \<Rightarrow> params \<Rightarrow> store \<Rightarrow> error + dashboard_version" where
  "get_version caller params s =
     (case get_domain_dashboard (p_dashboard_id params) (p_domain_id params) None s of
        Inl e \<Rightarrow> Inl e
      | Inr dashboard_vo \<Rightarrow>
          if viewers dashboard_vo = Some PRIVATE \<and> user_id dashboard_vo \<noteq> caller
          then Inl ERROR_PERMISSION_DENIED
          else version_mgr_get_version
                 (p_dashboard_id params) (p_version params) (p_domain_id params) (p_only params) s)"

text \<open>
  The list and stat calls of the managers pass the query on to the document store. The
  store's evaluation of a query is outside the sources: it is the argument \<open>run\<close>.
  \<open>list_op\<close> is the method \<open>list\<close> of the service.
\<close>

definition empty_query :: query where
  "empty_query = \<lparr>q_filter = None, q_other = fmempty\<rparr>"

definition list_versions ::
  "(query \<Rightarrow> store \<Rightarrow> dashboard_version list \<times> nat) \<Rightarrow> string option \<Rightarrow> params \<Rightarrow> store
     \<Rightarrow> error + (dashboard_version list \<times> nat \<times> int)" where
  "list_versions run caller params s =
     (let query = (case p_query params of None \<Rightarrow> empty_query | Some q \<Rightarrow> q);
          (domain_dashboard_version_vos, total_count) = run query s
      in case get_domain_dashboard (p_dashboard_id params) (p_domain_id params) None s of
           Inl e \<Rightarrow> Inl e
         | Inr dashboard_vo \<Rightarrow>
             if viewers dashboard_vo = Some PRIVATE \<and> user_id dashboard_vo \<noteq> caller
             then Inl ERROR_PERMISSION_DENIED
             else Inr (domain_dashboard_version_vos, total_count, version dashboard_vo))"

definition meta_value :: "string option \<Rightarrow> pyval" where
  "meta_value caller = (case caller of None \<Rightarrow> PNone | Some u \<Rightarrow> PStr u)"

definition list_op :: "(query \<Rightarrow> store \<Rightarrow> 'r) \<Rightarrow> string option \<Rightarrow> params \<Rightarrow> store \<Rightarrow> 'r" where
  "list_op run caller params s =
     (let query = (case p_query params of None \<Rightarrow> empty_query | Some q \<Rightarrow> q);
          query1 = query\<lparr>q_filter := Some (case q_filter query of None \<Rightarrow> [] | Some f \<Rightarrow> f)\<rparr>;
          query2 = query1\<lparr>q_filter :=
                     Some ((case q_filter query1 of None \<Rightarrow> [] | Some f \<Rightarrow> f) @
                           [\<lparr>f_k = ''user_id'',
                             f_v = PList [meta_value caller, PNone],
                             f_o = ''in''\<rparr>])\<rparr>
      in run query2 s)"

definition stat :: "(query \<Rightarrow> store \<Rightarrow> 'r) \<Rightarrow> string option \<Rightarrow> params \<Rightarrow> store \<Rightarrow> 'r" where
  "stat run caller params s =
     (let query = (case p_query params of None \<Rightarrow> empty_query | Some q \<Rightarrow> q);
          query1 = query\<lparr>q_filter := Some (case q_filter query of None \<Rightarrow> [] | Some f \<Rightarrow> f)\<rparr>;
          query2 = query1\<lparr>q_filter :=
                     Some ((case q_filter query1 of None \<Rightarrow> [] | Some f \<Rightarrow> f) @
                           [\<lparr>f_k = ''user_id'',
                             f_v = PList [meta_value caller, PNone],
                             f_o = ''in''\<rparr>])\<rparr>
      in run query2 s)"

section \<open>Requests and runs\<close>

text \<open>
  A request is one call of the service, together with the user id of its transaction. A run
  executes requests one after the other; the reading operations return no store.
\<close>

datatype request =
    Create string viewers create_params
  | Update params
  | Revert_version params
  | Delete_version params
  | Get params
  | Get_version params
  | List_versions params
  | List_op params
  | Stat params

fun step :: "string option \<times> request \<Rightarrow> store \<Rightarrow> store" where
  "step (caller, Create new_id vw params) s = store_after (create new_id vw params s) s"
| "step (caller, Update params) s = store_after (update caller params s) s"
| "step (caller, Revert_version params) s = store_after (revert_version caller params s) s"
| "step (caller, Delete_version params) s = store_after (delete_version caller params s) s"
| "step (caller, Get params) s = s"
| "step (caller, Get_version params) s = s"
| "step (caller, List_versions params) s = s"
| "step (caller, List_op params) s = s"
| "step (caller, Stat params) s = s"

fun run_requests :: "(string option \<times> request) list \<Rightarrow> store \<Rightarrow> store" where
  "run_requests [] s = s"
| "run_requests (r # rs) s = run_requests rs (step r s)"

text \<open>The access rule of section 4.1, as each operation of the service writes it out.\<close>

definition denied :: "dashboard \<Rightarrow> string option \<Rightarrow> bool" where
  "denied dashboard_vo caller =
     (viewers dashboard_vo = Some PRIVATE \<and> user_id dashboard_vo \<noteq> caller)"

section \<open>A small store\<close>

text \<open>
  One private dashboard of user \<open>u1\<close> at version 2, with its two snapshots, and a
  request for it that carries no optional key.
\<close>

definition ex_dashboard :: dashboard where
  "ex_dashboard =
     \<lparr>dashboard_id = ''dash-1'', name = ''main'', dashboard_type = ''CUSTOM'',
      viewers = Some PRIVATE, version = 2, layouts = [PStr ''w1''], variables = fmempty,
      settings = Some (fmap_of_list [(''a'', PInt 1), (''b'', PInt 2)]),
      variables_schema = fmempty, labels = [], tags = fmempty,
      resource_group = ''DOMAIN'', user_id = Some ''u1'', project_id = None,
      workspace_id = None, domain_id = ''dom-1''\<rparr>"

definition ex_version :: "int \<Rightarrow> string \<Rightarrow> dashboard_version" where
  "ex_version n w =
     \<lparr>v_dashboard_id = ''dash-1'', v_version = n, v_layouts = [PStr w],
      v_variables = fmempty, v_settings = fmempty, v_variables_schema = fmempty,
      v_domain_id = ''dom-1''\<rparr>"

definition ex_store :: store where
  "ex_store =
     \<lparr>dashboards = [ex_dashboard], versions = [ex_version 1 ''w0'', ex_version 2 ''w1'']\<rparr>"

definition ex_params :: params where
  "ex_params =
     \<lparr>p_layouts = None, p_variables = None, p_variables_schema = None,
      p_dashboard_id = ''dash-1'', p_domain_id = ''dom-1'', p_version = 1,
      p_name = None, p_settings = None, p_labels = None, p_tags = None,
      p_only = None, p_query = None\<rparr>"

text \<open>A request to create a second dashboard, with the key \<open>layouts\<close> present and empty.\<close>

definition ex_create :: create_params where
  "ex_create =
     \<lparr>p_layouts = Some [], p_variables = None, p_variables_schema = None,
      c_name = ''second'', c_dashboard_type = ''CUSTOM'', c_settings = None,
      c_labels = None, c_tags = None, c_resource_group = ''DOMAIN'', c_user_id = ''u1'',
      c_project_id = None, c_workspace_id = None, c_domain_id = ''dom-1''\<rparr>"

text \<open>
  The \<open>params\<close> that \<open>update\<close> hands to the managers, once \<open>name\<close> has its default
  and \<open>settings\<close> is merged (lines 95 to 107 of the service).
\<close>

definition patch_of :: "dashboard \<Rightarrow> params \<Rightarrow> params" where
  "patch_of d params =
     (let params1 = (if p_name params = None then params\<lparr>p_name := Some (name d)\<rparr> else params)
      in case p_settings params1 of
           None \<Rightarrow> params1
         | Some new_settings \<Rightarrow> params1\<lparr>p_settings := Some (merge_settings (settings d) new_settings)\<rparr>)"


section \<open>The record store: reading after writing\<close>

lemma get_domain_dashboard_projected:
  "get_domain_dashboard did dmn (Some field_names) s =
     (case get_domain_dashboard did dmn None s of
        Inl e \<Rightarrow> Inl e
      | Inr d \<Rightarrow> Inr (project_dashboard field_names d))"
  by (simp add: get_domain_dashboard_def split: option.splits)

lemma find_same_dashboard_key:
  "find (same_dashboard did dmn) ds = Some d \<Longrightarrow> dashboard_id d = did \<and> domain_id d = dmn"
  by (induction ds) (auto simp: same_dashboard_def split: if_splits)

lemma get_domain_dashboard_key:
  "get_domain_dashboard did dmn None s = Inr d \<Longrightarrow> dashboard_id d = did \<and> domain_id d = dmn"
  by (auto simp: get_domain_dashboard_def split: option.splits dest: find_same_dashboard_key)

lemma find_map_save:
  "find (same_dashboard did dmn)
     (map (\<lambda>d. if same_dashboard (dashboard_id vo) (domain_id vo) d then vo else d) ds) =
   (case find (same_dashboard did dmn) ds of
      None \<Rightarrow> None
    | Some d \<Rightarrow> if same_dashboard (dashboard_id vo) (domain_id vo) d then Some vo else Some d)"
  by (induction ds) (auto simp: same_dashboard_def)

lemma get_save_dashboard:
  "get_domain_dashboard did dmn None (save_dashboard vo s) =
   (case get_domain_dashboard did dmn None s of
      Inl e \<Rightarrow> Inl e
    | Inr d \<Rightarrow> if same_dashboard (dashboard_id vo) (domain_id vo) d then Inr vo else Inr d)"
  by (simp add: get_domain_dashboard_def save_dashboard_def find_map_save split: option.splits)

lemma versions_save_dashboard [simp]: "versions (save_dashboard vo s) = versions s"
  by (simp add: save_dashboard_def)

section \<open>The update operation, unfolded\<close>

lemma has_version_key_iff:
  "has_version_key_in_params d params [''layouts'', ''variables'', ''variables_schema''] = Some True \<longleftrightarrow>
     (\<exists>l. p_layouts params = Some l \<and> l \<noteq> [] \<and> l \<noteq> layouts d) \<or>
     (\<exists>m. p_variables params = Some m \<and> m \<noteq> fmempty \<and> m \<noteq> variables d) \<or>
     (\<exists>m. p_variables_schema params = Some m \<and> m \<noteq> fmempty \<and> m \<noteq> variables_schema d)"
  by (auto simp: has_version_key_in_params_def keys_def split: option.splits)

lemma patch_of_fields [simp]:
  "p_layouts (patch_of d params) = p_layouts params"
  "p_variables (patch_of d params) = p_variables params"
  "p_variables_schema (patch_of d params) = p_variables_schema params"
  "p_settings (patch_of d params) = map_option (merge_settings (settings d)) (p_settings params)"
  by (auto simp: patch_of_def Let_def split: option.splits)

lemma update_unfold:
  assumes "get_domain_dashboard (p_dashboard_id params) (p_domain_id params) None s = Inr d"
  shows "update caller params s =
     (if denied d caller then Inl ERROR_PERMISSION_DENIED
      else if has_version_key_in_params d (patch_of d params) [''layouts'', ''variables'', ''variables_schema''] = Some True
      then Inr (update_domain_dashboard_by_vo (patch_of d params) (d\<lparr>version := version d + 1\<rparr>)
              (snd (create_version_by_domain_dashboard_vo (d\<lparr>version := version d + 1\<rparr>) (patch_of d params)
                 (save_dashboard (d\<lparr>version := version d + 1\<rparr>) s))))
      else Inr (update_domain_dashboard_by_vo (patch_of d params) d s))"
  using assms
  by (simp add: update_def denied_def patch_of_def Let_def increase_version_def split_beta)

section \<open>Version-worthy updates\<close>

lemma by_vo_fields:
  "version (fst (update_domain_dashboard_by_vo p vo s)) = version vo"
  "dashboard_id (fst (update_domain_dashboard_by_vo p vo s)) = dashboard_id vo"
  "domain_id (fst (update_domain_dashboard_by_vo p vo s)) = domain_id vo"
  "viewers (fst (update_domain_dashboard_by_vo p vo s)) = viewers vo"
  "user_id (fst (update_domain_dashboard_by_vo p vo s)) = user_id vo"
  "layouts (fst (update_domain_dashboard_by_vo p vo s)) =
     (case p_layouts p of Some l \<Rightarrow> l | None \<Rightarrow> layouts vo)"
  "variables (fst (update_domain_dashboard_by_vo p vo s)) =
     (case p_variables p of Some m \<Rightarrow> m | None \<Rightarrow> variables vo)"
  "variables_schema (fst (update_domain_dashboard_by_vo p vo s)) =
     (case p_variables_schema p of Some m \<Rightarrow> m | None \<Rightarrow> variables_schema vo)"
  "settings (fst (update_domain_dashboard_by_vo p vo s)) =
     (case p_settings p of Some m \<Rightarrow> Some m | None \<Rightarrow> settings vo)"
  by (simp_all add: update_domain_dashboard_by_vo_def Let_def)

lemma by_vo_store:
  "snd (update_domain_dashboard_by_vo p vo s) =
     save_dashboard (fst (update_domain_dashboard_by_vo p vo s)) s"
  by (simp add: update_domain_dashboard_by_vo_def Let_def)

lemma create_version_store:
  "dashboards (snd (create_version_by_domain_dashboard_vo vo p s)) = dashboards s"
  "versions (snd (create_version_by_domain_dashboard_vo vo p s)) =
     versions s @ [fst (create_version_by_domain_dashboard_vo vo p s)]"
  by (simp_all add: create_version_by_domain_dashboard_vo_def Let_def)

lemma create_version_fields:
  "v_dashboard_id (fst (create_version_by_domain_dashboard_vo vo p s)) = dashboard_id vo"
  "v_domain_id (fst (create_version_by_domain_dashboard_vo vo p s)) = domain_id vo"
  "v_version (fst (create_version_by_domain_dashboard_vo vo p s)) = version vo"
  "v_layouts (fst (create_version_by_domain_dashboard_vo vo p s)) =
     (case p_layouts p of Some l \<Rightarrow> l | None \<Rightarrow> layouts vo)"
  "v_variables (fst (create_version_by_domain_dashboard_vo vo p s)) =
     (case p_variables p of Some m \<Rightarrow> m | None \<Rightarrow> variables vo)"
  "v_variables_schema (fst (create_version_by_domain_dashboard_vo vo p s)) =
     (case p_variables_schema p of Some m \<Rightarrow> m | None \<Rightarrow> variables_schema vo)"
  by (simp_all add: create_version_by_domain_dashboard_vo_def Let_def)

lemma get_domain_dashboard_cong:
  "dashboards s1 = dashboards s2 \<Longrightarrow>
     get_domain_dashboard did dmn only s1 = get_domain_dashboard did dmn only s2"
  by (simp add: get_domain_dashboard_def)

lemma dashboards_save_twice:
  "dashboard_id vo2 = dashboard_id vo1 \<Longrightarrow> domain_id vo2 = domain_id vo1 \<Longrightarrow>
   dashboards s2 = dashboards (save_dashboard vo1 s) \<Longrightarrow>
   dashboards (save_dashboard vo2 s2) = dashboards (save_dashboard vo2 s)"
  by (auto simp: save_dashboard_def same_dashboard_def)

lemma get_after_save:
  assumes "get_domain_dashboard did dmn None s = Inr d"
      and "dashboard_id vo = did" "domain_id vo = dmn"
  shows "get_domain_dashboard did dmn None (save_dashboard vo s) = Inr vo"
  using assms get_domain_dashboard_key [OF assms(1)]
  by (simp add: get_save_dashboard same_dashboard_def)

text \<open>
  The version-worthy path of \<open>update\<close>. When the access rule admits the caller and the
  patch holds a version-bearing field with a non-empty new value that differs from the
  record's current value, the update returns and adds exactly one snapshot; the version
  counter is raised by exactly 1, the snapshot carries the raised number, and that number
  is the version of the stored record afterwards.
\<close>

lemma update_changed_field_snapshot:
  assumes g: "get_domain_dashboard (p_dashboard_id params) (p_domain_id params) None s = Inr d"
      and a: "\<not> denied d caller"
      and c: "(\<exists>l. p_layouts params = Some l \<and> l \<noteq> [] \<and> l \<noteq> layouts d) \<or>
              (\<exists>m. p_variables params = Some m \<and> m \<noteq> fmempty \<and> m \<noteq> variables d) \<or>
              (\<exists>m. p_variables_schema params = Some m \<and> m \<noteq> fmempty \<and> m \<noteq> variables_schema d)"
  shows "\<exists>d' s' snap.
           update caller params s = Inr (d', s') \<and>
           versions s' = versions s @ [snap] \<and>
           v_dashboard_id snap = dashboard_id d \<and> v_domain_id snap = domain_id d \<and>
           v_version snap = version d + 1 \<and>
           version d' = version d + 1 \<and>
           get_domain_dashboard (p_dashboard_id params) (p_domain_id params) None s' = Inr d'"
proof -
  let ?p = "patch_of d params"
  let ?vo1 = "d\<lparr>version := version d + 1\<rparr>"
  let ?s1 = "save_dashboard ?vo1 s"
  let ?cv = "create_version_by_domain_dashboard_vo ?vo1 ?p ?s1"
  let ?r = "update_domain_dashboard_by_vo ?p ?vo1 (snd ?cv)"
  have hv: "has_version_key_in_params d ?p [''layouts'', ''variables'', ''variables_schema''] = Some True"
    using c by (simp add: has_version_key_iff)
  have u: "update caller params s = Inr (fst ?r, snd ?r)"
    using a hv by (simp add: update_unfold [OF g])
  have k: "dashboard_id d = p_dashboard_id params" "domain_id d = p_domain_id params"
    using get_domain_dashboard_key [OF g] by simp_all
  have vs: "versions (snd ?r) = versions s @ [fst ?cv]"
    by (simp add: by_vo_store create_version_store)
  have ds: "dashboards (snd ?r) = dashboards (save_dashboard (fst ?r) s)"
    unfolding by_vo_store
    by (rule dashboards_save_twice [where ?vo1.0 = ?vo1])
       (simp_all add: by_vo_fields create_version_store)
  have "get_domain_dashboard (p_dashboard_id params) (p_domain_id params) None
          (save_dashboard (fst ?r) s) = Inr (fst ?r)"
    by (rule get_after_save [OF g]) (simp_all add: by_vo_fields k)
  then have gs: "get_domain_dashboard (p_dashboard_id params) (p_domain_id params) None (snd ?r) = Inr (fst ?r)"
    using get_domain_dashboard_cong [OF ds] by simp
  show ?thesis
    using u vs gs by (intro exI [of _ "fst ?r"] exI [of _ "snd ?r"] exI [of _ "fst ?cv"])
      (simp add: by_vo_fields create_version_fields)
qed

section \<open>Updates that are not version-worthy, deleting and reverting versions\<close>

lemma update_not_worthy:
  assumes g: "get_domain_dashboard (p_dashboard_id params) (p_domain_id params) None s = Inr d"
      and n: "has_version_key_in_params d (patch_of d params)
                [''layouts'', ''variables'', ''variables_schema''] \<noteq> Some True"
  shows "versions (store_after (update caller params s) s) = versions s \<and>
         (\<exists>d'. get_domain_dashboard (p_dashboard_id params) (p_domain_id params) None
                  (store_after (update caller params s) s) = Inr d' \<and> version d' = version d)"
proof (cases "denied d caller")
  case True
  then show ?thesis using g by (simp add: update_unfold [OF g] store_after_def)
next
  case False
  let ?r = "update_domain_dashboard_by_vo (patch_of d params) d s"
  have k: "dashboard_id d = p_dashboard_id params" "domain_id d = p_domain_id params"
    using get_domain_dashboard_key [OF g] by simp_all
  have u: "store_after (update caller params s) s = save_dashboard (fst ?r) s"
    using False n by (simp add: update_unfold [OF g] store_after_def by_vo_store split_beta)
  have "get_domain_dashboard (p_dashboard_id params) (p_domain_id params) None
          (save_dashboard (fst ?r) s) = Inr (fst ?r)"
    by (rule get_after_save [OF g]) (simp_all add: by_vo_fields k)
  then show ?thesis
    unfolding u by (simp add: by_vo_fields)
qed

text \<open>
  C2. An update of an existing dashboard in which every version-bearing field that the
  patch holds equals the record's current value creates no snapshot and leaves the version
  counter of the stored record unchanged, whoever calls and whether or not such keys are
  present. (The store after an operation that raises is the store before it.)
\<close>

theorem update_equal_fields_no_version:
  assumes g: "get_domain_dashboard (p_dashboard_id params) (p_domain_id params) None s = Inr d"
      and l: "p_layouts params = None \<or> p_layouts params = Some (layouts d)"
      and v: "p_variables params = None \<or> p_variables params = Some (variables d)"
      and c: "p_variables_schema params = None \<or>
              p_variables_schema params = Some (variables_schema d)"
  shows "versions (store_after (update caller params s) s) = versions s \<and>
         (\<exists>d'. get_domain_dashboard (p_dashboard_id params) (p_domain_id params) None
                  (store_after (update caller params s) s) = Inr d' \<and> version d' = version d)"
proof (rule update_not_worthy [OF g])
  show "has_version_key_in_params d (patch_of d params)
          [''layouts'', ''variables'', ''variables_schema''] \<noteq> Some True"
    using l v c by (auto simp: has_version_key_iff)
qed

text \<open>
  C10. An update whose patch holds at least one version-bearing key, every one of them with
  an empty value (empty list or empty mapping), is not version-worthy:
  \<open>_has_version_key_in_params\<close> returns \<open>False\<close>, no snapshot is created and the version
  counter of the stored record is unchanged, whatever the record's current values are.
\<close>

theorem update_empty_fields_no_version:
  assumes g: "get_domain_dashboard (p_dashboard_id params) (p_domain_id params) None s = Inr d"
      and k: "p_layouts params \<noteq> None \<or> p_variables params \<noteq> None \<or>
              p_variables_schema params \<noteq> None"
      and l: "p_layouts params = None \<or> p_layouts params = Some []"
      and v: "p_variables params = None \<or> p_variables params = Some fmempty"
      and c: "p_variables_schema params = None \<or> p_variables_schema params = Some fmempty"
  shows "has_version_key_in_params d params [''layouts'', ''variables'', ''variables_schema'']
           = Some False \<and>
         versions (store_after (update caller params s) s) = versions s \<and>
         (\<exists>d'. get_domain_dashboard (p_dashboard_id params) (p_domain_id params) None
                  (store_after (update caller params s) s) = Inr d' \<and> version d' = version d)"
proof -
  have n: "has_version_key_in_params d (patch_of d params)
          [''layouts'', ''variables'', ''variables_schema''] \<noteq> Some True"
    using l v c by (auto simp: has_version_key_iff)
  have f: "has_version_key_in_params d params [''layouts'', ''variables'', ''variables_schema'']
           = Some False"
    using k l v c by (auto simp: has_version_key_in_params_def keys_def)
  show ?thesis using f update_not_worthy [OF g n] by simp
qed

text \<open>
  C3, as amended. For an existing dashboard and a caller whom the access rule admits,
  \<open>delete_version\<close> with the record's current version raises \<open>ERROR_LATEST_VERSION\<close>
  carrying the requested version and leaves the store as it was; with any other version it
  is the version manager's \<open>delete_version\<close> on the same dashboard id, version and
  domain id.
\<close>

theorem delete_version_latest:
  assumes g: "get_domain_dashboard (p_dashboard_id params) (p_domain_id params) None s = Inr d"
      and a: "\<not> denied d caller"
  shows "if p_version params = version d
         then delete_version caller params s = Inl (ERROR_LATEST_VERSION (p_version params)) \<and>
              store_after (delete_version caller params s) s = s
         else delete_version caller params s =
                version_mgr_delete_version
                  (p_dashboard_id params) (p_version params) (p_domain_id params) s"
  using g a by (auto simp: delete_version_def denied_def store_after_def)

text \<open>
  C4, as amended. For an existing dashboard, a caller whom the access rule admits and an
  existing snapshot at the requested version \<open>v\<close>, \<open>revert_version\<close> returns; the
  record's \<open>layouts\<close>, \<open>variables\<close> and \<open>variables_schema\<close> are then those of the
  snapshot, its version counter is the old one plus 1 (it equals \<open>v\<close> only if \<open>v\<close> was
  already that next number), and exactly one snapshot is added, which carries the reverted
  content at the new version number. Nothing is asked of the snapshot's content, so this
  holds also when it equals the current state.
\<close>

theorem revert_version_forward:
  assumes g: "get_domain_dashboard (p_dashboard_id params) (p_domain_id params) None s = Inr d"
      and a: "\<not> denied d caller"
      and v: "version_mgr_get_version
                (p_dashboard_id params) (p_version params) (p_domain_id params) None s = Inr snap"
  shows "\<exists>d' s' new.
           revert_version caller params s = Inr (d', s') \<and>
           layouts d' = v_layouts snap \<and> variables d' = v_variables snap \<and>
           variables_schema d' = v_variables_schema snap \<and>
           version d' = version d + 1 \<and>
           (version d' = p_version params) = (p_version params = version d + 1) \<and>
           get_domain_dashboard (p_dashboard_id params) (p_domain_id params) None s' = Inr d' \<and>
           versions s' = versions s @ [new] \<and>
           v_dashboard_id new = dashboard_id d \<and> v_domain_id new = domain_id d \<and>
           v_version new = version d + 1 \<and>
           v_layouts new = v_layouts snap \<and> v_variables new = v_variables snap \<and>
           v_variables_schema new = v_variables_schema snap"
proof -
  let ?p = "params\<lparr>p_layouts := Some (v_layouts snap), p_variables := Some (v_variables snap),
              p_variables_schema := Some (v_variables_schema snap)\<rparr>"
  let ?vo1 = "d\<lparr>version := version d + 1\<rparr>"
  let ?s1 = "save_dashboard ?vo1 s"
  let ?cv = "create_version_by_domain_dashboard_vo ?vo1 ?p ?s1"
  let ?r = "update_domain_dashboard_by_vo ?p ?vo1 (snd ?cv)"
  have u: "revert_version caller params s = Inr (fst ?r, snd ?r)"
    using g a v by (simp add: revert_version_def denied_def Let_def increase_version_def split_beta)
  have k: "dashboard_id d = p_dashboard_id params" "domain_id d = p_domain_id params"
    using get_domain_dashboard_key [OF g] by simp_all
  have vs: "versions (snd ?r) = versions s @ [fst ?cv]"
    by (simp add: by_vo_store create_version_store)
  have ds: "dashboards (snd ?r) = dashboards (save_dashboard (fst ?r) s)"
    unfolding by_vo_store
    by (rule dashboards_save_twice [where ?vo1.0 = ?vo1])
       (simp_all add: by_vo_fields create_version_store)
  have "get_domain_dashboard (p_dashboard_id params) (p_domain_id params) None
          (save_dashboard (fst ?r) s) = Inr (fst ?r)"
    by (rule get_after_save [OF g]) (simp_all add: by_vo_fields k)
  then have gs: "get_domain_dashboard (p_dashboard_id params) (p_domain_id params) None (snd ?r)
      = Inr (fst ?r)"
    using get_domain_dashboard_cong [OF ds] by simp
  show ?thesis
    using u vs gs by (intro exI [of _ "fst ?r"] exI [of _ "snd ?r"] exI [of _ "fst ?cv"])
      (auto simp add: by_vo_fields create_version_fields)
qed

section \<open>Access, settings, deletion and query scoping\<close>

lemma version_mgr_delete_version_not_denied:
  "version_mgr_delete_version did ver dmn s \<noteq> Inl ERROR_PERMISSION_DENIED"
  by (auto simp: version_mgr_delete_version_def version_mgr_get_version_def
           split: option.splits sum.splits)

lemma version_mgr_get_version_not_denied:
  "version_mgr_get_version did ver dmn only s \<noteq> Inl ERROR_PERMISSION_DENIED"
  by (auto simp: version_mgr_get_version_def split: option.splits)

text \<open>
  The access rule in the seven operations that carry it. Six of them fetch the record in
  full, and raise \<open>ERROR_PERMISSION_DENIED\<close> exactly when the stored record is
  \<open>PRIVATE\<close> and its \<open>user_id\<close> differs from the caller's. \<open>get\<close> passes its
  projection to the fetch and applies the rule to what the fetch returns.
\<close>

lemma access_rule:
  assumes g: "get_domain_dashboard (p_dashboard_id params) (p_domain_id params) None s = Inr d"
  shows "(update caller params s = Inl ERROR_PERMISSION_DENIED) = denied d caller"
    and "(delete caller params s = Inl ERROR_PERMISSION_DENIED) = denied d caller"
    and "(delete_version caller params s = Inl ERROR_PERMISSION_DENIED) = denied d caller"
    and "(revert_version caller params s = Inl ERROR_PERMISSION_DENIED) = denied d caller"
    and "(get_version caller params s = Inl ERROR_PERMISSION_DENIED) = denied d caller"
    and "(list_versions run caller params s = Inl ERROR_PERMISSION_DENIED) = denied d caller"
    and "(get caller params s = Inl ERROR_PERMISSION_DENIED) =
           denied (case p_only params of
                     None \<Rightarrow> d
                   | Some field_names \<Rightarrow> project_dashboard field_names d) caller"
proof -
  show "(update caller params s = Inl ERROR_PERMISSION_DENIED) = denied d caller"
    by (simp add: update_unfold [OF g])
  show "(delete caller params s = Inl ERROR_PERMISSION_DENIED) = denied d caller"
    using g by (simp add: delete_def Let_def denied_def)
  show "(delete_version caller params s = Inl ERROR_PERMISSION_DENIED) = denied d caller"
    using g by (simp add: delete_version_def denied_def version_mgr_delete_version_not_denied)
  show "(revert_version caller params s = Inl ERROR_PERMISSION_DENIED) = denied d caller"
    using g
    by (cases "version_mgr_get_version (p_dashboard_id params) (p_version params)
                 (p_domain_id params) None s")
       (auto simp: revert_version_def denied_def Let_def split_beta version_mgr_get_version_def
             split: option.splits)
  show "(get_version caller params s = Inl ERROR_PERMISSION_DENIED) = denied d caller"
    using g by (simp add: get_version_def denied_def version_mgr_get_version_not_denied)
  show "(list_versions run caller params s = Inl ERROR_PERMISSION_DENIED) = denied d caller"
    using g by (auto simp: list_versions_def denied_def Let_def split_beta)
  show "(get caller params s = Inl ERROR_PERMISSION_DENIED) =
           denied (case p_only params of
                     None \<Rightarrow> d
                   | Some field_names \<Rightarrow> project_dashboard field_names d) caller"
    using g
    by (cases "p_only params")
       (simp_all add: get_def denied_def get_domain_dashboard_projected)
qed

lemma update_returns_stored:
  assumes g: "get_domain_dashboard (p_dashboard_id params) (p_domain_id params) None s = Inr d"
      and u: "update caller params s = Inr (d', s')"
  shows "get_domain_dashboard (p_dashboard_id params) (p_domain_id params) None s' = Inr d'"
proof -
  let ?p = "patch_of d params"
  let ?vo1 = "d\<lparr>version := version d + 1\<rparr>"
  let ?cv = "create_version_by_domain_dashboard_vo ?vo1 ?p (save_dashboard ?vo1 s)"
  let ?r = "update_domain_dashboard_by_vo ?p ?vo1 (snd ?cv)"
  let ?q = "update_domain_dashboard_by_vo ?p d s"
  have k: "dashboard_id d = p_dashboard_id params" "domain_id d = p_domain_id params"
    using get_domain_dashboard_key [OF g] by simp_all
  from u have "(d', s') = ?r \<or> (d', s') = ?q"
    by (auto simp: update_unfold [OF g] split: if_splits)
  then show ?thesis
  proof
    assume e: "(d', s') = ?r"
    have ds: "dashboards (snd ?r) = dashboards (save_dashboard (fst ?r) s)"
      unfolding by_vo_store
      by (rule dashboards_save_twice [where ?vo1.0 = ?vo1])
         (simp_all add: by_vo_fields create_version_store)
    have "get_domain_dashboard (p_dashboard_id params) (p_domain_id params) None
            (save_dashboard (fst ?r) s) = Inr (fst ?r)"
      by (rule get_after_save [OF g]) (simp_all add: by_vo_fields k)
    then have "get_domain_dashboard (p_dashboard_id params) (p_domain_id params) None (snd ?r)
        = Inr (fst ?r)"
      using get_domain_dashboard_cong [OF ds] by simp
    then show ?thesis using e by (metis fst_conv snd_conv)
  next
    assume e: "(d', s') = ?q"
    have "get_domain_dashboard (p_dashboard_id params) (p_domain_id params) None
            (save_dashboard (fst ?q) s) = Inr (fst ?q)"
      by (rule get_after_save [OF g]) (simp_all add: by_vo_fields k)
    then have "get_domain_dashboard (p_dashboard_id params) (p_domain_id params) None (snd ?q)
        = Inr (fst ?q)"
      by (simp add: by_vo_store)
    then show ?thesis using e by (metis fst_conv snd_conv)
  qed
qed

text \<open>
  C7. When an update whose patch includes a \<open>settings\<close> mapping returns a record, that
  record is the one the store holds afterwards, and its settings are \<open>_merge_settings\<close> of
  the existing settings and the incoming mapping. If the existing settings are absent or
  empty this is the incoming mapping exactly; otherwise it is the shallow merge: every key
  of the incoming mapping has the incoming value and every other key has its existing
  value. In particular \<open>{a:1, b:2}\<close> merged with \<open>{b:3, c:4}\<close> is \<open>{a:1, b:3, c:4}\<close>, and
  absent or empty settings merged with \<open>{x:1}\<close> are \<open>{x:1}\<close>.
\<close>

theorem update_merges_settings:
  assumes g: "get_domain_dashboard (p_dashboard_id params) (p_domain_id params) None s = Inr d"
      and n: "p_settings params = Some new"
      and u: "update caller params s = Inr (d', s')"
  shows "settings d' = Some (merge_settings (settings d) new) \<and>
         get_domain_dashboard (p_dashboard_id params) (p_domain_id params) None s' = Inr d' \<and>
         (case settings d of
            None \<Rightarrow> merge_settings (settings d) new = new
          | Some old \<Rightarrow>
              if old = fmempty then merge_settings (settings d) new = new
              else \<forall>x. fmlookup (merge_settings (settings d) new) x =
                         (case fmlookup new x of Some y \<Rightarrow> Some y | None \<Rightarrow> fmlookup old x)) \<and>
         merge_settings
           (Some (fmap_of_list [(''a'', PInt 1), (''b'', PInt 2)]))
           (fmap_of_list [(''b'', PInt 3), (''c'', PInt 4)]) =
           fmap_of_list [(''a'', PInt 1), (''b'', PInt 3), (''c'', PInt 4)] \<and>
         merge_settings None (fmap_of_list [(''x'', PInt 1)]) = fmap_of_list [(''x'', PInt 1)] \<and>
         merge_settings (Some fmempty) (fmap_of_list [(''x'', PInt 1)]) =
           fmap_of_list [(''x'', PInt 1)]"
proof -
  have s: "settings d' = Some (merge_settings (settings d) new)"
  proof -
    have "d' = fst (update_domain_dashboard_by_vo (patch_of d params) (d\<lparr>version := version d + 1\<rparr>)
              (snd (create_version_by_domain_dashboard_vo (d\<lparr>version := version d + 1\<rparr>)
                 (patch_of d params) (save_dashboard (d\<lparr>version := version d + 1\<rparr>) s)))) \<or>
          d' = fst (update_domain_dashboard_by_vo (patch_of d params) d s)"
      using u by (auto simp: update_unfold [OF g] split: if_splits)
    then show ?thesis using n by (auto simp: by_vo_fields)
  qed
  have st: "get_domain_dashboard (p_dashboard_id params) (p_domain_id params) None s' = Inr d'"
    by (rule update_returns_stored [OF g u])
  have ne: "fmap_of_list [(''a'', PInt 1), (''b'', PInt 2)] \<noteq> (fmempty :: pydict)"
    by (simp add: fmap_ext)
  have ex: "fmap_of_list [(''a'', PInt 1), (''b'', PInt 2)] ++\<^sub>f
            fmap_of_list [(''b'', PInt 3), (''c'', PInt 4)] =
            (fmap_of_list [(''a'', PInt 1), (''b'', PInt 3), (''c'', PInt 4)] :: pydict)"
    by (rule fmap_ext) (auto simp: fmlookup_of_list)
  have lk: "fmlookup (old ++\<^sub>f new) x =
            (case fmlookup new x of Some y \<Rightarrow> Some y | None \<Rightarrow> fmlookup old x)" for old x
    by (auto simp: fmlookup_dom_iff split: option.splits)
  have m: "case settings d of
            None \<Rightarrow> merge_settings (settings d) new = new
          | Some old \<Rightarrow>
              if old = fmempty then merge_settings (settings d) new = new
              else \<forall>x. fmlookup (merge_settings (settings d) new) x =
                         (case fmlookup new x of Some y \<Rightarrow> Some y | None \<Rightarrow> fmlookup old x)"
    using lk by (simp add: merge_settings_def split: option.splits)
  show ?thesis
    using s st m ne ex by (simp add: merge_settings_def)
qed

lemma filter_not_in_filter:
  "filter (\<lambda>v. v \<notin> set (filter P xs)) xs = filter (\<lambda>v. \<not> P v) xs"
  by (rule filter_cong) auto

lemma filter_none_keeps: "filter P xs = [] \<Longrightarrow> filter (\<lambda>v. \<not> P v) xs = xs"
  by (induction xs) (auto split: if_splits)

lemma find_filter_not: "find P (filter (\<lambda>x. \<not> Q x) xs) = None" if "\<And>x. P x \<Longrightarrow> Q x"
  using that by (induction xs) auto

text \<open>
  C8, as amended. For an existing dashboard and a caller whom the access rule admits,
  \<open>delete\<close> returns; the store it leaves is the one obtained by first removing every
  snapshot with the dashboard's id and then removing the record. Afterwards the record is
  not found, no snapshot with its id is left, and no version of it can be fetched.
\<close>

theorem delete_cascades:
  assumes g: "get_domain_dashboard (p_dashboard_id params) (p_domain_id params) None s = Inr d"
      and a: "\<not> denied d caller"
  shows "\<exists>s'. delete caller params s = Inr ((), s') \<and>
           s' = delete_by_domain_dashboard_vo d
                  (s\<lparr>versions := filter (\<lambda>v. v_dashboard_id v \<noteq> dashboard_id d) (versions s)\<rparr>) \<and>
           get_domain_dashboard (p_dashboard_id params) (p_domain_id params) None s'
             = Inl ERROR_NOT_FOUND \<and>
           filter_versions (p_dashboard_id params) s' = [] \<and>
           (\<forall>ver dmn only.
              version_mgr_get_version (p_dashboard_id params) ver dmn only s' = Inl ERROR_NOT_FOUND)"
proof -
  let ?s1 = "s\<lparr>versions := filter (\<lambda>v. v_dashboard_id v \<noteq> dashboard_id d) (versions s)\<rparr>"
  let ?s' = "delete_by_domain_dashboard_vo d ?s1"
  have k: "dashboard_id d = p_dashboard_id params" "domain_id d = p_domain_id params"
    using get_domain_dashboard_key [OF g] by simp_all
  have s1: "(if filter_versions (dashboard_id d) s \<noteq> []
             then delete_versions_by_domain_dashboard_version_vos
                    (filter_versions (dashboard_id d) s) s
             else s) = ?s1"
    unfolding filter_versions_def delete_versions_by_domain_dashboard_version_vos_def
      filter_not_in_filter
    by (simp add: filter_none_keeps)
  have u: "delete caller params s = Inr ((), ?s')"
    using g a s1 by (simp add: delete_def denied_def Let_def)
  have n: "get_domain_dashboard (p_dashboard_id params) (p_domain_id params) None ?s'
             = Inl ERROR_NOT_FOUND"
  proof -
    have "find (same_dashboard (p_dashboard_id params) (p_domain_id params))
            (filter (\<lambda>x. \<not> same_dashboard (p_dashboard_id params) (p_domain_id params) x)
               (dashboards s)) = None"
      by (rule find_filter_not) simp
    then show ?thesis
      by (simp add: get_domain_dashboard_def delete_by_domain_dashboard_vo_def k)
  qed
  have f: "filter_versions (p_dashboard_id params) ?s' = []"
    by (simp add: filter_versions_def delete_by_domain_dashboard_vo_def k)
  have v: "version_mgr_get_version (p_dashboard_id params) ver dmn only ?s' = Inl ERROR_NOT_FOUND"
    for ver dmn only
  proof -
    have "find (same_version (p_dashboard_id params) ver dmn)
            (filter (\<lambda>v. \<not> v_dashboard_id v = p_dashboard_id params) (versions s)) = None"
      by (rule find_filter_not) (simp add: same_version_def)
    then show ?thesis
      by (simp add: version_mgr_get_version_def delete_by_domain_dashboard_vo_def k)
  qed
  show ?thesis using u n f v by simp
qed

text \<open>
  C9. \<open>list\<close> and \<open>stat\<close> call the document store with one query, whatever the store
  does with it. The \<open>filter\<close> of that query is the caller-supplied filter list (empty when
  the request has no query, or the query no filter) followed by the clause with key
  \<open>user_id\<close>, operator \<open>in\<close> and value list \<open>[caller's user id, None]\<close>: every supplied
  clause is kept, and the ownership clause is always there, after them. The other keys of
  the query are passed on as they came.
\<close>

theorem list_stat_ownership_filter:
  "list_op run caller params s = run (list_op (\<lambda>q _. q) caller params s) s \<and>
   stat run' caller params s = run' (stat (\<lambda>q _. q) caller params s) s \<and>
   q_filter (list_op (\<lambda>q _. q) caller params s) =
     Some ((case p_query params of
              None \<Rightarrow> []
            | Some q \<Rightarrow> (case q_filter q of None \<Rightarrow> [] | Some f \<Rightarrow> f)) @
           [\<lparr>f_k = ''user_id'', f_v = PList [meta_value caller, PNone], f_o = ''in''\<rparr>]) \<and>
   q_filter (stat (\<lambda>q _. q) caller params s) =
     Some ((case p_query params of
              None \<Rightarrow> []
            | Some q \<Rightarrow> (case q_filter q of None \<Rightarrow> [] | Some f \<Rightarrow> f)) @
           [\<lparr>f_k = ''user_id'', f_v = PList [meta_value caller, PNone], f_o = ''in''\<rparr>]) \<and>
   q_other (list_op (\<lambda>q _. q) caller params s) =
     (case p_query params of None \<Rightarrow> fmempty | Some q \<Rightarrow> q_other q) \<and>
   q_other (stat (\<lambda>q _. q) caller params s) =
     (case p_query params of None \<Rightarrow> fmempty | Some q \<Rightarrow> q_other q) \<and>
   meta_value caller = (case caller of None \<Rightarrow> PNone | Some u \<Rightarrow> PStr u)"
proof -
  let ?own = "\<lparr>f_k = ''user_id'', f_v = PList [meta_value caller, PNone], f_o = ''in''\<rparr>"
  let ?q = "case p_query params of None \<Rightarrow> empty_query | Some q \<Rightarrow> q"
  let ?fs = "case q_filter ?q of None \<Rightarrow> [] | Some f \<Rightarrow> f"
  have sup: "?fs = (case p_query params of
                      None \<Rightarrow> []
                    | Some q \<Rightarrow> (case q_filter q of None \<Rightarrow> [] | Some f \<Rightarrow> f))"
    by (simp add: empty_query_def split: option.splits)
  have oth: "q_other ?q = (case p_query params of None \<Rightarrow> fmempty | Some q \<Rightarrow> q_other q)"
    by (simp add: empty_query_def split: option.splits)
  have l: "list_op r caller params s = r (?q\<lparr>q_filter := Some (?fs @ [?own])\<rparr>) s" for r :: "query \<Rightarrow> store \<Rightarrow> 'x"
    by (simp add: list_op_def Let_def)
  have t: "stat r caller params s = r (?q\<lparr>q_filter := Some (?fs @ [?own])\<rparr>) s" for r :: "query \<Rightarrow> store \<Rightarrow> 'x"
    by (simp add: stat_def Let_def)
  have "list_op run caller params s = run (list_op (\<lambda>q _. q) caller params s) s"
    by (simp add: l)
  moreover have "stat run' caller params s = run' (stat (\<lambda>q _. q) caller params s) s"
    by (simp add: t)
  moreover have "q_filter (list_op (\<lambda>q _. q) caller params s) = Some (?fs @ [?own])"
    "q_filter (stat (\<lambda>q _. q) caller params s) = Some (?fs @ [?own])"
    by (simp_all add: l t)
  moreover have "q_other (list_op (\<lambda>q _. q) caller params s) = q_other ?q"
    "q_other (stat (\<lambda>q _. q) caller params s) = q_other ?q"
    by (simp_all add: l t)
  ultimately show ?thesis
    unfolding sup oth by (simp add: meta_value_def)
qed

section \<open>The version counter along a run\<close>

lemma find_append_some: "find P xs = Some x \<Longrightarrow> find P (xs @ ys) = Some x"
  by (induction xs) (auto split: if_splits)

lemma create_keeps_dashboard:
  assumes "get_domain_dashboard did dmn None s = Inr d"
  shows "get_domain_dashboard did dmn None (store_after (create new_id vw params s) s) = Inr d"
proof -
  have f: "find (same_dashboard did dmn) (dashboards s) = Some d"
    using assms by (simp add: get_domain_dashboard_def split: option.splits)
  have "dashboards (store_after (create new_id vw params s) s) =
          dashboards s @ [fst (create_domain_dashboard new_id vw params s)]"
    by (simp add: create_def store_after_def create_domain_dashboard_def Let_def
          create_version_store)
  then show ?thesis
    using find_append_some [OF f] by (simp add: get_domain_dashboard_def)
qed

lemma update_dashboards:
  assumes g: "get_domain_dashboard (p_dashboard_id params) (p_domain_id params) None s = Inr d"
  shows "store_after (update caller params s) s = s \<or>
         (\<exists>vo. dashboards (store_after (update caller params s) s) = dashboards (save_dashboard vo s) \<and>
               dashboard_id vo = dashboard_id d \<and> domain_id vo = domain_id d \<and>
               (version vo = version d \<or> version vo = version d + 1))"
proof (cases "denied d caller")
  case True
  then show ?thesis by (simp add: update_unfold [OF g] store_after_def)
next
  case False
  let ?p = "patch_of d params"
  let ?vo1 = "d\<lparr>version := version d + 1\<rparr>"
  let ?cv = "create_version_by_domain_dashboard_vo ?vo1 ?p (save_dashboard ?vo1 s)"
  let ?r = "update_domain_dashboard_by_vo ?p ?vo1 (snd ?cv)"
  let ?q = "update_domain_dashboard_by_vo ?p d s"
  show ?thesis
  proof (cases "has_version_key_in_params d ?p [''layouts'', ''variables'', ''variables_schema'']
                  = Some True")
    case True
    have u: "store_after (update caller params s) s = snd ?r"
      using \<open>\<not> denied d caller\<close> True by (simp add: update_unfold [OF g] store_after_def split_beta)
    have ds: "dashboards (snd ?r) = dashboards (save_dashboard (fst ?r) s)"
      unfolding by_vo_store
      by (rule dashboards_save_twice [where ?vo1.0 = ?vo1])
         (simp_all add: by_vo_fields create_version_store)
    show ?thesis
      using u ds by (intro disjI2 exI [of _ "fst ?r"]) (simp add: by_vo_fields)
  next
    case False
    have u: "store_after (update caller params s) s = snd ?q"
      using \<open>\<not> denied d caller\<close> False by (simp add: update_unfold [OF g] store_after_def split_beta)
    show ?thesis
      using u by (intro disjI2 exI [of _ "fst ?q"]) (simp add: by_vo_fields by_vo_store)
  qed
qed

lemma revert_dashboards:
  assumes g: "get_domain_dashboard (p_dashboard_id params) (p_domain_id params) None s = Inr d"
  shows "store_after (revert_version caller params s) s = s \<or>
         (\<exists>vo. dashboards (store_after (revert_version caller params s) s) =
                 dashboards (save_dashboard vo s) \<and>
               dashboard_id vo = dashboard_id d \<and> domain_id vo = domain_id d \<and>
               version vo = version d + 1)"
proof (cases "denied d caller")
  case True
  then show ?thesis using g by (simp add: revert_version_def denied_def store_after_def)
next
  case False
  show ?thesis
  proof (cases "version_mgr_get_version (p_dashboard_id params) (p_version params)
                  (p_domain_id params) None s")
    case (Inl e)
    then show ?thesis using g by (simp add: revert_version_def store_after_def)
  next
    case (Inr snap)
    let ?p = "params\<lparr>p_layouts := Some (v_layouts snap), p_variables := Some (v_variables snap),
                p_variables_schema := Some (v_variables_schema snap)\<rparr>"
    let ?vo1 = "d\<lparr>version := version d + 1\<rparr>"
    let ?cv = "create_version_by_domain_dashboard_vo ?vo1 ?p (save_dashboard ?vo1 s)"
    let ?r = "update_domain_dashboard_by_vo ?p ?vo1 (snd ?cv)"
    have u: "store_after (revert_version caller params s) s = snd ?r"
      using g False Inr
      by (auto simp: revert_version_def denied_def Let_def increase_version_def split_beta
            store_after_def)
    have ds: "dashboards (snd ?r) = dashboards (save_dashboard (fst ?r) s)"
      unfolding by_vo_store
      by (rule dashboards_save_twice [where ?vo1.0 = ?vo1])
         (simp_all add: by_vo_fields create_version_store)
    show ?thesis
      using u ds by (intro disjI2 exI [of _ "fst ?r"]) (simp add: by_vo_fields)
  qed
qed

lemma delete_version_dashboards:
  "dashboards (store_after (delete_version caller params s) s) = dashboards s"
  by (auto simp: delete_version_def store_after_def version_mgr_delete_version_def Let_def
           split: sum.splits if_splits)

lemma get_after_write:
  assumes g: "get_domain_dashboard did dmn None s = Inr d"
      and t: "get_domain_dashboard did' dmn' None s = Inr d0"
      and w: "dashboards s' = dashboards (save_dashboard vo s)"
      and k: "dashboard_id vo = dashboard_id d0" "domain_id vo = domain_id d0"
  shows "get_domain_dashboard did dmn None s' = Inr d \<or>
         get_domain_dashboard did dmn None s' = Inr vo \<and> d0 = d \<and> did' = did \<and> dmn' = dmn"
proof -
  have kd: "dashboard_id d = did" "domain_id d = dmn"
    using get_domain_dashboard_key [OF g] by simp_all
  have k0: "dashboard_id d0 = did'" "domain_id d0 = dmn'"
    using get_domain_dashboard_key [OF t] by simp_all
  have e: "get_domain_dashboard did dmn None s' =
        (if same_dashboard (dashboard_id vo) (domain_id vo) d then Inr vo else Inr d)"
    using get_domain_dashboard_cong [OF w, of did dmn None] g by (simp add: get_save_dashboard)
  show ?thesis
  proof (cases "same_dashboard (dashboard_id vo) (domain_id vo) d")
    case True
    then have "did' = did" "dmn' = dmn"
      using k kd k0 by (simp_all add: same_dashboard_def)
    then show ?thesis using e True g t by simp
  next
    case False
    then show ?thesis using e by simp
  qed
qed

lemma step_version:
  assumes g: "get_domain_dashboard did dmn None s = Inr d"
  shows "\<exists>d1. get_domain_dashboard did dmn None (step (caller, r) s) = Inr d1 \<and>
           (version d1 = version d \<or>
            version d1 = version d + 1 \<and>
            (\<exists>p. (r = Update p \<or> r = Revert_version p) \<and>
                 p_dashboard_id p = did \<and> p_domain_id p = dmn))"
proof (cases r)
  case (Create new_id vw params)
  then show ?thesis using create_keeps_dashboard [OF g] by simp
next
  case (Update p)
  show ?thesis
  proof (cases "get_domain_dashboard (p_dashboard_id p) (p_domain_id p) None s")
    case (Inl e)
    then show ?thesis using g Update by (simp add: update_def store_after_def)
  next
    case (Inr d0)
    from update_dashboards [OF Inr, of caller] show ?thesis
    proof
      assume "store_after (update caller p s) s = s"
      then show ?thesis using g Update by simp
    next
      assume "\<exists>vo. dashboards (store_after (update caller p s) s) = dashboards (save_dashboard vo s) \<and>
               dashboard_id vo = dashboard_id d0 \<and> domain_id vo = domain_id d0 \<and>
               (version vo = version d0 \<or> version vo = version d0 + 1)"
      then obtain vo where w: "dashboards (store_after (update caller p s) s) = dashboards (save_dashboard vo s)"
        and k: "dashboard_id vo = dashboard_id d0" "domain_id vo = domain_id d0"
        and v: "version vo = version d0 \<or> version vo = version d0 + 1"
        by blast
      from get_after_write [OF g Inr w k] show ?thesis
        using Update v by auto
    qed
  qed
next
  case (Revert_version p)
  show ?thesis
  proof (cases "get_domain_dashboard (p_dashboard_id p) (p_domain_id p) None s")
    case (Inl e)
    then show ?thesis using g Revert_version by (simp add: revert_version_def store_after_def)
  next
    case (Inr d0)
    from revert_dashboards [OF Inr, of caller] show ?thesis
    proof
      assume "store_after (revert_version caller p s) s = s"
      then show ?thesis using g Revert_version by simp
    next
      assume "\<exists>vo. dashboards (store_after (revert_version caller p s) s) =
                 dashboards (save_dashboard vo s) \<and>
               dashboard_id vo = dashboard_id d0 \<and> domain_id vo = domain_id d0 \<and>
               version vo = version d0 + 1"
      then obtain vo where w: "dashboards (store_after (revert_version caller p s) s) =
                 dashboards (save_dashboard vo s)"
        and k: "dashboard_id vo = dashboard_id d0" "domain_id vo = domain_id d0"
        and v: "version vo = version d0 + 1"
        by blast
      from get_after_write [OF g Inr w k] show ?thesis
        using Revert_version v by auto
    qed
  qed
next
  case (Delete_version p)
  then show ?thesis
    using g get_domain_dashboard_cong [OF delete_version_dashboards, of did dmn None caller p s]
    by simp
qed (use g in simp_all)

lemma run_requests_version:
  "get_domain_dashboard did dmn None s = Inr d \<Longrightarrow>
     \<exists>d'. get_domain_dashboard did dmn None (run_requests rs s) = Inr d' \<and> version d \<le> version d'"
proof (induction rs arbitrary: s d)
  case Nil
  then show ?case by simp
next
  case (Cons r rs)
  obtain caller q where r: "r = (caller, q)" by (cases r)
  from step_version [OF Cons.prems, of caller q]
  obtain d1 where g1: "get_domain_dashboard did dmn None (step r s) = Inr d1"
    and v1: "version d \<le> version d1"
    using r by auto
  from Cons.IH [OF g1] obtain d' where
    "get_domain_dashboard did dmn None (run_requests rs (step r s)) = Inr d'"
    "version d1 \<le> version d'" by blast
  then show ?case using v1 by auto
qed

text \<open>
  C6. For a dashboard record of the store and any run of requests (\<open>create\<close>, \<open>update\<close>,
  \<open>revert_version\<close>, \<open>delete_version\<close>, \<open>get\<close>, \<open>get_version\<close>, \<open>list_versions\<close>,
  \<open>list\<close>, \<open>stat\<close>, by any callers), the record is still there after the run and its
  version counter is not smaller than before. After a single request the counter is either
  unchanged or raised by exactly 1, and it is raised only by an \<open>update\<close> or a
  \<open>revert_version\<close> addressed to this record.
\<close>

theorem version_never_decreases:
  assumes g: "get_domain_dashboard did dmn None s = Inr d"
  shows "(\<exists>d'. get_domain_dashboard did dmn None (run_requests rs s) = Inr d' \<and>
               version d \<le> version d') \<and>
         (\<exists>d1. get_domain_dashboard did dmn None (step (caller, r) s) = Inr d1 \<and>
           (version d1 = version d \<or>
            version d1 = version d + 1 \<and>
            (\<exists>p. (r = Update p \<or> r = Revert_version p) \<and>
                 p_dashboard_id p = did \<and> p_domain_id p = dmn)))"
  using run_requests_version [OF g] step_version [OF g] by simp

section \<open>The claims on the small store\<close>

lemmas ex_defs = ex_dashboard_def ex_version_def ex_store_def ex_params_def

lemma ex_get:
  "get_domain_dashboard ''dash-1'' ''dom-1'' None ex_store = Inr ex_dashboard"
  by (simp add: ex_defs get_domain_dashboard_def same_dashboard_def)

lemma ex_params_key [simp]:
  "p_dashboard_id ex_params = ''dash-1''" "p_domain_id ex_params = ''dom-1''"
  "p_version ex_params = 1"
  by (simp_all add: ex_params_def)

lemma ex_dashboard_fields [simp]:
  "viewers ex_dashboard = Some PRIVATE" "user_id ex_dashboard = Some ''u1''"
  "version ex_dashboard = 2" "layouts ex_dashboard = [PStr ''w1'']"
  "variables ex_dashboard = fmempty" "variables_schema ex_dashboard = fmempty"
  "dashboard_id ex_dashboard = ''dash-1''" "domain_id ex_dashboard = ''dom-1''"
  "settings ex_dashboard = Some (fmap_of_list [(''a'', PInt 1), (''b'', PInt 2)])"
  by (simp_all add: ex_dashboard_def)

lemma ex_params_fields [simp]:
  "p_layouts ex_params = None" "p_variables ex_params = None"
  "p_variables_schema ex_params = None" "p_settings ex_params = None"
  "p_name ex_params = None" "p_only ex_params = None" "p_query ex_params = None"
  by (simp_all add: ex_params_def)

text \<open>
  The version-worthy path on the small store: the owner replaces the layouts \<open>[w1]\<close> by
  \<open>[w2]\<close>; version 2 becomes 3 and one snapshot of version 3 is added.
\<close>

lemma update_changed_field_snapshot_example:
  "get_domain_dashboard ''dash-1'' ''dom-1'' None ex_store = Inr ex_dashboard \<and>
   \<not> denied ex_dashboard (Some ''u1'') \<and>
   (\<exists>d' s' snap.
      update (Some ''u1'') (ex_params\<lparr>p_layouts := Some [PStr ''w2'']\<rparr>) ex_store = Inr (d', s') \<and>
      versions s' = versions ex_store @ [snap] \<and> v_version snap = 3 \<and> version d' = 3 \<and>
      get_domain_dashboard ''dash-1'' ''dom-1'' None s' = Inr d')"
proof -
  let ?p = "ex_params\<lparr>p_layouts := Some [PStr ''w2'']\<rparr>"
  have g: "get_domain_dashboard (p_dashboard_id ?p) (p_domain_id ?p) None ex_store = Inr ex_dashboard"
    using ex_get by simp
  have a: "\<not> denied ex_dashboard (Some ''u1'')"
    by (simp add: denied_def)
  have c: "(\<exists>l. p_layouts ?p = Some l \<and> l \<noteq> [] \<and> l \<noteq> layouts ex_dashboard) \<or>
           (\<exists>m. p_variables ?p = Some m \<and> m \<noteq> fmempty \<and> m \<noteq> variables ex_dashboard) \<or>
           (\<exists>m. p_variables_schema ?p = Some m \<and> m \<noteq> fmempty \<and>
                m \<noteq> variables_schema ex_dashboard)"
    by simp
  show ?thesis
    using ex_get a update_changed_field_snapshot [OF g a c] by (simp; blast)
qed

text \<open>
  C1. The claim fails in the code where the new value of a version-bearing field is empty.
  On the small store the owner, whom the access rule admits, sends the patch
  \<open>layouts = []\<close>; the record's layouts are \<open>[w1]\<close>, so the value differs. The outer guard
  of \<open>_has_version_key_in_params\<close> sees the key and the function returns \<open>False\<close>: the
  comparison of line 423 is behind the truthiness of \<open>params.get("layouts")\<close>. The update
  returns, the stored record has its layouts emptied, and yet the version is still 2 and
  the snapshots are as before, where the claim has one new snapshot and version 3.
\<close>

theorem update_empty_layouts_no_snapshot:
  "get_domain_dashboard ''dash-1'' ''dom-1'' None ex_store = Inr ex_dashboard \<and>
   \<not> denied ex_dashboard (Some ''u1'') \<and>
   p_layouts (ex_params\<lparr>p_layouts := Some []\<rparr>) = Some [] \<and>
   layouts ex_dashboard = [PStr ''w1''] \<and>
   has_version_key_in_params ex_dashboard (ex_params\<lparr>p_layouts := Some []\<rparr>)
     [''layouts'', ''variables'', ''variables_schema''] = Some False \<and>
   \<not> isl (update (Some ''u1'') (ex_params\<lparr>p_layouts := Some []\<rparr>) ex_store) \<and>
   versions (store_after (update (Some ''u1'') (ex_params\<lparr>p_layouts := Some []\<rparr>) ex_store)
      ex_store) = versions ex_store \<and>
   version (fst (projr (update (Some ''u1'') (ex_params\<lparr>p_layouts := Some []\<rparr>) ex_store))) = 2 \<and>
   layouts (fst (projr (update (Some ''u1'') (ex_params\<lparr>p_layouts := Some []\<rparr>) ex_store))) = [] \<and>
   get_domain_dashboard ''dash-1'' ''dom-1'' None
     (store_after (update (Some ''u1'') (ex_params\<lparr>p_layouts := Some []\<rparr>) ex_store) ex_store) =
     Inr (fst (projr (update (Some ''u1'') (ex_params\<lparr>p_layouts := Some []\<rparr>) ex_store)))"
proof -
  let ?p = "ex_params\<lparr>p_layouts := Some []\<rparr>"
  let ?r = "update_domain_dashboard_by_vo (patch_of ex_dashboard ?p) ex_dashboard ex_store"
  have g: "get_domain_dashboard (p_dashboard_id ?p) (p_domain_id ?p) None ex_store = Inr ex_dashboard"
    using ex_get by simp
  have a: "\<not> denied ex_dashboard (Some ''u1'')"
    by (simp add: denied_def)
  have f: "has_version_key_in_params ex_dashboard ?p
             [''layouts'', ''variables'', ''variables_schema''] = Some False"
    by (simp add: has_version_key_in_params_def keys_def)
  have n: "has_version_key_in_params ex_dashboard (patch_of ex_dashboard ?p)
             [''layouts'', ''variables'', ''variables_schema''] \<noteq> Some True"
    by (simp add: has_version_key_iff)
  have u: "update (Some ''u1'') ?p ex_store = Inr ?r"
    using n a by (simp add: update_unfold [OF g])
  have st: "get_domain_dashboard ''dash-1'' ''dom-1'' None (save_dashboard (fst ?r) ex_store)
      = Inr (fst ?r)"
    by (rule get_after_save [OF ex_get]) (simp_all add: by_vo_fields)
  show ?thesis
    using ex_get a f st
    by (simp add: u store_after_def split_beta by_vo_fields by_vo_store)
qed

text \<open>
  The sibling \<open>create\<close> goes by the presence of the key (line 58): with \<open>layouts = []\<close> it
  does take a snapshot.
\<close>

lemma create_empty_layouts_snapshot:
  "versions (store_after (create ''dash-2'' PRIVATE ex_create ex_store) ex_store) =
     versions ex_store @
     [\<lparr>v_dashboard_id = ''dash-2'', v_version = 0, v_layouts = [], v_variables = fmempty,
       v_settings = fmempty, v_variables_schema = fmempty, v_domain_id = ''dom-1''\<rparr>]"
  by (simp add: create_def create_domain_dashboard_def create_version_by_domain_dashboard_vo_def
        store_after_def ex_create_def Let_def)

text \<open>
  C2 on the small store: the owner sends the current layouts \<open>[w1]\<close> again; the update
  returns, the snapshots are unchanged and the version is still 2.
\<close>

theorem update_equal_fields_no_version_witness:
  "get_domain_dashboard ''dash-1'' ''dom-1'' None ex_store = Inr ex_dashboard \<and>
   p_layouts (ex_params\<lparr>p_layouts := Some [PStr ''w1'']\<rparr>) = Some (layouts ex_dashboard) \<and>
   \<not> isl (update (Some ''u1'') (ex_params\<lparr>p_layouts := Some [PStr ''w1'']\<rparr>) ex_store) \<and>
   versions (store_after (update (Some ''u1'') (ex_params\<lparr>p_layouts := Some [PStr ''w1'']\<rparr>)
      ex_store) ex_store) = versions ex_store \<and>
   (\<exists>d'. get_domain_dashboard ''dash-1'' ''dom-1'' None
            (store_after (update (Some ''u1'') (ex_params\<lparr>p_layouts := Some [PStr ''w1'']\<rparr>)
               ex_store) ex_store) = Inr d' \<and> version d' = 2)"
proof -
  let ?p = "ex_params\<lparr>p_layouts := Some [PStr ''w1'']\<rparr>"
  have g: "get_domain_dashboard (p_dashboard_id ?p) (p_domain_id ?p) None ex_store = Inr ex_dashboard"
    using ex_get by simp
  have l: "p_layouts ?p = None \<or> p_layouts ?p = Some (layouts ex_dashboard)" by simp
  have v: "p_variables ?p = None \<or> p_variables ?p = Some (variables ex_dashboard)" by simp
  have c: "p_variables_schema ?p = None \<or>
           p_variables_schema ?p = Some (variables_schema ex_dashboard)" by simp
  have r: "\<not> isl (update (Some ''u1'') ?p ex_store)"
    by (simp add: update_unfold [OF g] denied_def)
  show ?thesis
    using ex_get r update_equal_fields_no_version [OF g l v c, of "Some ''u1''"] by simp
qed

text \<open>
  C10 on the small store: the record's layouts are \<open>[w1]\<close>, the owner's patch has
  \<open>layouts = []\<close>; the update returns, with no new snapshot and the version still 2.
\<close>

theorem update_empty_fields_no_version_witness:
  "get_domain_dashboard ''dash-1'' ''dom-1'' None ex_store = Inr ex_dashboard \<and>
   p_layouts (ex_params\<lparr>p_layouts := Some []\<rparr>) = Some [] \<and>
   layouts ex_dashboard \<noteq> [] \<and>
   \<not> isl (update (Some ''u1'') (ex_params\<lparr>p_layouts := Some []\<rparr>) ex_store) \<and>
   versions (store_after (update (Some ''u1'') (ex_params\<lparr>p_layouts := Some []\<rparr>) ex_store)
      ex_store) = versions ex_store \<and>
   (\<exists>d'. get_domain_dashboard ''dash-1'' ''dom-1'' None
            (store_after (update (Some ''u1'') (ex_params\<lparr>p_layouts := Some []\<rparr>) ex_store)
               ex_store) = Inr d' \<and> version d' = 2)"
proof -
  let ?p = "ex_params\<lparr>p_layouts := Some []\<rparr>"
  have g: "get_domain_dashboard (p_dashboard_id ?p) (p_domain_id ?p) None ex_store = Inr ex_dashboard"
    using ex_get by simp
  have k: "p_layouts ?p \<noteq> None \<or> p_variables ?p \<noteq> None \<or> p_variables_schema ?p \<noteq> None"
    by simp
  have l: "p_layouts ?p = None \<or> p_layouts ?p = Some []" by simp
  have v: "p_variables ?p = None \<or> p_variables ?p = Some fmempty" by simp
  have c: "p_variables_schema ?p = None \<or> p_variables_schema ?p = Some fmempty" by simp
  have r: "\<not> isl (update (Some ''u1'') ?p ex_store)"
    by (simp add: update_unfold [OF g] denied_def)
  show ?thesis
    using ex_get r update_empty_fields_no_version [OF g k l v c, of "Some ''u1''"] by simp
qed

lemma ex_get_version_1:
  "version_mgr_get_version ''dash-1'' 1 ''dom-1'' None ex_store = Inr (ex_version 1 ''w0'')"
  by (simp add: ex_defs version_mgr_get_version_def same_version_def)

lemma ex_get_version_2:
  "version_mgr_get_version ''dash-1'' 2 ''dom-1'' None ex_store = Inr (ex_version 2 ''w1'')"
  by (simp add: ex_defs version_mgr_get_version_def same_version_def)

text \<open>
  C3 on the small store, for the owner: version 2 is current and is refused; version 1 is
  deleted by the version manager, which leaves the snapshot of version 2.
\<close>

theorem delete_version_latest_witness:
  "get_domain_dashboard ''dash-1'' ''dom-1'' None ex_store = Inr ex_dashboard \<and>
   \<not> denied ex_dashboard (Some ''u1'') \<and>
   delete_version (Some ''u1'') (ex_params\<lparr>p_version := 2\<rparr>) ex_store
     = Inl (ERROR_LATEST_VERSION 2) \<and>
   delete_version (Some ''u1'') ex_params ex_store
     = Inr ((), ex_store\<lparr>versions := [ex_version 2 ''w1'']\<rparr>)"
proof -
  let ?p = "ex_params\<lparr>p_version := 2\<rparr>"
  have g: "get_domain_dashboard (p_dashboard_id ?p) (p_domain_id ?p) None ex_store = Inr ex_dashboard"
    using ex_get by simp
  have g1: "get_domain_dashboard (p_dashboard_id ex_params) (p_domain_id ex_params) None ex_store
      = Inr ex_dashboard"
    using ex_get by simp
  have a: "\<not> denied ex_dashboard (Some ''u1'')"
    by (simp add: denied_def)
  have m: "version_mgr_delete_version ''dash-1'' 1 ''dom-1'' ex_store
      = Inr ((), ex_store\<lparr>versions := [ex_version 2 ''w1'']\<rparr>)"
    using ex_get ex_get_version_1
    by (simp add: version_mgr_delete_version_def get_domain_dashboard_def split: option.splits)
       (simp add: ex_defs)
  show ?thesis
    using ex_get a m delete_version_latest [OF g a] delete_version_latest [OF g1 a] by simp
qed

text \<open>
  C3 as it was stated fails for a caller who is not the owner of a private dashboard: with
  the current version 2 the operation raises \<open>ERROR_PERMISSION_DENIED\<close>, not
  \<open>ERROR_LATEST_VERSION\<close>.
\<close>

theorem delete_version_latest_counterexample:
  "get_domain_dashboard ''dash-1'' ''dom-1'' None ex_store = Inr ex_dashboard \<and>
   p_version (ex_params\<lparr>p_version := 2\<rparr>) = version ex_dashboard \<and>
   delete_version (Some ''u2'') (ex_params\<lparr>p_version := 2\<rparr>) ex_store
     = Inl ERROR_PERMISSION_DENIED \<and>
   delete_version (Some ''u2'') (ex_params\<lparr>p_version := 2\<rparr>) ex_store
     \<noteq> Inl (ERROR_LATEST_VERSION 2)"
  using ex_get by (simp add: delete_version_def)

text \<open>
  C4 on the small store, for the owner: reverting to version 1 gives layouts \<open>[w0]\<close> at
  version 3 with a new snapshot of version 3; reverting to version 2, whose content is the
  current state, also gives version 3 and a new snapshot.
\<close>

theorem revert_version_forward_witness:
  "get_domain_dashboard ''dash-1'' ''dom-1'' None ex_store = Inr ex_dashboard \<and>
   \<not> denied ex_dashboard (Some ''u1'') \<and>
   version_mgr_get_version ''dash-1'' 1 ''dom-1'' None ex_store = Inr (ex_version 1 ''w0'') \<and>
   (\<exists>d' s' new.
      revert_version (Some ''u1'') ex_params ex_store = Inr (d', s') \<and>
      layouts d' = [PStr ''w0''] \<and> version d' = 3 \<and>
      versions s' = versions ex_store @ [new] \<and> v_version new = 3 \<and>
      v_layouts new = [PStr ''w0'']) \<and>
   version_mgr_get_version ''dash-1'' 2 ''dom-1'' None ex_store = Inr (ex_version 2 ''w1'') \<and>
   layouts ex_dashboard = v_layouts (ex_version 2 ''w1'') \<and>
   (\<exists>d' s' new.
      revert_version (Some ''u1'') (ex_params\<lparr>p_version := 2\<rparr>) ex_store = Inr (d', s') \<and>
      layouts d' = [PStr ''w1''] \<and> version d' = 3 \<and>
      versions s' = versions ex_store @ [new] \<and> v_version new = 3)"
proof -
  let ?p = "ex_params\<lparr>p_version := 2\<rparr>"
  have g: "get_domain_dashboard (p_dashboard_id ex_params) (p_domain_id ex_params) None ex_store
      = Inr ex_dashboard"
    using ex_get by simp
  have g2: "get_domain_dashboard (p_dashboard_id ?p) (p_domain_id ?p) None ex_store = Inr ex_dashboard"
    using ex_get by simp
  have a: "\<not> denied ex_dashboard (Some ''u1'')"
    by (simp add: denied_def)
  have v: "version_mgr_get_version (p_dashboard_id ex_params) (p_version ex_params)
             (p_domain_id ex_params) None ex_store = Inr (ex_version 1 ''w0'')"
    using ex_get_version_1 by simp
  have v2: "version_mgr_get_version (p_dashboard_id ?p) (p_version ?p)
             (p_domain_id ?p) None ex_store = Inr (ex_version 2 ''w1'')"
    using ex_get_version_2 by simp
  have f: "v_layouts (ex_version 1 ''w0'') = [PStr ''w0'']"
          "v_layouts (ex_version 2 ''w1'') = [PStr ''w1'']"
    by (simp_all add: ex_version_def)
  have r1: "\<exists>d' s' new.
      revert_version (Some ''u1'') ex_params ex_store = Inr (d', s') \<and>
      layouts d' = [PStr ''w0''] \<and> version d' = 3 \<and>
      versions s' = versions ex_store @ [new] \<and> v_version new = 3 \<and>
      v_layouts new = [PStr ''w0'']"
    using revert_version_forward [OF g a v] f by (simp; blast)
  have r2: "\<exists>d' s' new.
      revert_version (Some ''u1'') ?p ex_store = Inr (d', s') \<and>
      layouts d' = [PStr ''w1''] \<and> version d' = 3 \<and>
      versions s' = versions ex_store @ [new] \<and> v_version new = 3"
    using revert_version_forward [OF g2 a v2] f by (simp; blast)
  show ?thesis
    using ex_get a ex_get_version_1 ex_get_version_2 r1 r2 f by simp
qed

text \<open>
  C4 as it was stated fails for a caller who is not the owner of a private dashboard: the
  snapshot of version 1 exists, and \<open>revert_version\<close> raises \<open>ERROR_PERMISSION_DENIED\<close>
  and leaves the store as it was.
\<close>

theorem revert_version_forward_counterexample:
  "get_domain_dashboard ''dash-1'' ''dom-1'' None ex_store = Inr ex_dashboard \<and>
   version_mgr_get_version ''dash-1'' 1 ''dom-1'' None ex_store = Inr (ex_version 1 ''w0'') \<and>
   revert_version (Some ''u2'') ex_params ex_store = Inl ERROR_PERMISSION_DENIED \<and>
   store_after (revert_version (Some ''u2'') ex_params ex_store) ex_store = ex_store"
  using ex_get ex_get_version_1 by (simp add: revert_version_def store_after_def)

text \<open>
  C5. The claim fails in the code for \<open>get\<close> with a projection. \<open>get\<close> alone hands
  \<open>params["only"]\<close> to the fetch whose result the access rule reads (lines 174 to 182); the
  other six operations fetch the record in full. On the small store user \<open>u2\<close> asks for
  the private dashboard of \<open>u1\<close> with \<open>only = ["name"]\<close>: the fetched record carries no
  \<open>viewers\<close>, the rule does not fire, and \<open>get\<close> returns the record with its name, where
  the claim has \<open>ERROR_PERMISSION_DENIED\<close>. Without the projection \<open>get\<close> denies
  \<open>u2\<close>, and so do the six other operations on the same request. The owner \<open>u1\<close> in
  turn is denied by \<open>get\<close> with \<open>only = ["viewers"]\<close>, the fetched record carrying no
  \<open>user_id\<close>, where the claim has no denial for the record's user.
\<close>

theorem get_projection_escapes_access_rule:
  "get_domain_dashboard ''dash-1'' ''dom-1'' None ex_store = Inr ex_dashboard \<and>
   viewers ex_dashboard = Some PRIVATE \<and> user_id ex_dashboard = Some ''u1'' \<and>
   get (Some ''u2'') (ex_params\<lparr>p_only := Some [''name'']\<rparr>) ex_store =
     Inr (project_dashboard [''name''] ex_dashboard) \<and>
   name (project_dashboard [''name''] ex_dashboard) = ''main'' \<and>
   get (Some ''u2'') ex_params ex_store = Inl ERROR_PERMISSION_DENIED \<and>
   update (Some ''u2'') (ex_params\<lparr>p_only := Some [''name'']\<rparr>) ex_store
     = Inl ERROR_PERMISSION_DENIED \<and>
   delete (Some ''u2'') (ex_params\<lparr>p_only := Some [''name'']\<rparr>) ex_store
     = Inl ERROR_PERMISSION_DENIED \<and>
   delete_version (Some ''u2'') (ex_params\<lparr>p_only := Some [''name'']\<rparr>) ex_store
     = Inl ERROR_PERMISSION_DENIED \<and>
   revert_version (Some ''u2'') (ex_params\<lparr>p_only := Some [''name'']\<rparr>) ex_store
     = Inl ERROR_PERMISSION_DENIED \<and>
   get_version (Some ''u2'') (ex_params\<lparr>p_only := Some [''name'']\<rparr>) ex_store
     = Inl ERROR_PERMISSION_DENIED \<and>
   list_versions (\<lambda>q s. (versions s, length (versions s))) (Some ''u2'')
     (ex_params\<lparr>p_only := Some [''name'']\<rparr>) ex_store = Inl ERROR_PERMISSION_DENIED \<and>
   get (Some ''u1'') (ex_params\<lparr>p_only := Some [''viewers'']\<rparr>) ex_store
     = Inl ERROR_PERMISSION_DENIED \<and>
   get (Some ''u1'') ex_params ex_store = Inr ex_dashboard"
proof -
  let ?p = "ex_params\<lparr>p_only := Some [''name'']\<rparr>"
  have g: "get_domain_dashboard (p_dashboard_id ?p) (p_domain_id ?p) None ex_store = Inr ex_dashboard"
    using ex_get by simp
  have d: "denied ex_dashboard (Some ''u2'')"
    by (simp add: denied_def)
  have six:
    "update (Some ''u2'') ?p ex_store = Inl ERROR_PERMISSION_DENIED"
    "delete (Some ''u2'') ?p ex_store = Inl ERROR_PERMISSION_DENIED"
    "delete_version (Some ''u2'') ?p ex_store = Inl ERROR_PERMISSION_DENIED"
    "revert_version (Some ''u2'') ?p ex_store = Inl ERROR_PERMISSION_DENIED"
    "get_version (Some ''u2'') ?p ex_store = Inl ERROR_PERMISSION_DENIED"
    "list_versions (\<lambda>q s. (versions s, length (versions s))) (Some ''u2'') ?p ex_store
       = Inl ERROR_PERMISSION_DENIED"
    using d by (simp_all only: access_rule [OF g])
  have p: "get_domain_dashboard ''dash-1'' ''dom-1'' (Some [''name'']) ex_store
      = Inr (project_dashboard [''name''] ex_dashboard)"
    by (simp add: get_domain_dashboard_projected ex_get)
  have v: "get_domain_dashboard ''dash-1'' ''dom-1'' (Some [''viewers'']) ex_store
      = Inr (project_dashboard [''viewers''] ex_dashboard)"
    by (simp add: get_domain_dashboard_projected ex_get)
  have g1: "get (Some ''u2'') ?p ex_store = Inr (project_dashboard [''name''] ex_dashboard)"
    using p by (simp add: get_def project_dashboard_def)
  have g2: "get (Some ''u2'') ex_params ex_store = Inl ERROR_PERMISSION_DENIED"
    using ex_get by (simp add: get_def)
  have g3: "get (Some ''u1'') (ex_params\<lparr>p_only := Some [''viewers'']\<rparr>) ex_store
      = Inl ERROR_PERMISSION_DENIED"
    using v by (simp add: get_def project_dashboard_def)
  have g4: "get (Some ''u1'') ex_params ex_store = Inr ex_dashboard"
    using ex_get by (simp add: get_def)
  have nm: "name (project_dashboard [''name''] ex_dashboard) = ''main''"
    by (simp add: project_dashboard_def ex_dashboard_def)
  show ?thesis
    using ex_get six g1 g2 g3 g4 nm by simp
qed

text \<open>
  C6 on the small store: after an update, a refused delete_version and a revert, the
  version of the dashboard is at least 2.
\<close>

theorem version_never_decreases_witness:
  "get_domain_dashboard ''dash-1'' ''dom-1'' None ex_store = Inr ex_dashboard \<and>
   (\<exists>d'. get_domain_dashboard ''dash-1'' ''dom-1'' None
      (run_requests
         [(Some ''u1'', Update (ex_params\<lparr>p_layouts := Some [PStr ''w2'']\<rparr>)),
          (Some ''u2'', Delete_version ex_params),
          (Some ''u1'', Revert_version ex_params)] ex_store) = Inr d' \<and>
      2 \<le> version d') \<and>
   (\<exists>d1. get_domain_dashboard ''dash-1'' ''dom-1'' None
      (step (Some ''u1'', Revert_version ex_params) ex_store) = Inr d1 \<and>
      (version d1 = 2 \<or> version d1 = 3))"
  using ex_get
    version_never_decreases [OF ex_get,
      of "[(Some ''u1'', Update (ex_params\<lparr>p_layouts := Some [PStr ''w2'']\<rparr>)),
           (Some ''u2'', Delete_version ex_params),
           (Some ''u1'', Revert_version ex_params)]"
         "Some ''u1''" "Revert_version ex_params"]
  by (simp; blast)

text \<open>
  C7 on the small store: the owner's update with settings \<open>{b:3, c:4}\<close> on the record
  with settings \<open>{a:1, b:2}\<close> returns a record with settings \<open>{a:1, b:3, c:4}\<close>, which
  is the record of the store afterwards.
\<close>

theorem update_merges_settings_witness:
  "get_domain_dashboard ''dash-1'' ''dom-1'' None ex_store = Inr ex_dashboard \<and>
   settings ex_dashboard = Some (fmap_of_list [(''a'', PInt 1), (''b'', PInt 2)]) \<and>
   (\<exists>d' s'.
      update (Some ''u1'')
        (ex_params\<lparr>p_settings := Some (fmap_of_list [(''b'', PInt 3), (''c'', PInt 4)])\<rparr>)
        ex_store = Inr (d', s') \<and>
      settings d' = Some (fmap_of_list [(''a'', PInt 1), (''b'', PInt 3), (''c'', PInt 4)]) \<and>
      get_domain_dashboard ''dash-1'' ''dom-1'' None s' = Inr d')"
proof -
  let ?p = "ex_params\<lparr>p_settings := Some (fmap_of_list [(''b'', PInt 3), (''c'', PInt 4)])\<rparr>"
  have g: "get_domain_dashboard (p_dashboard_id ?p) (p_domain_id ?p) None ex_store = Inr ex_dashboard"
    using ex_get by simp
  have n: "p_settings ?p = Some (fmap_of_list [(''b'', PInt 3), (''c'', PInt 4)])"
    by simp
  have "\<not> isl (update (Some ''u1'') ?p ex_store)"
    by (subst update_unfold [OF g]) (simp add: denied_def)
  then obtain d' s' where u: "update (Some ''u1'') ?p ex_store = Inr (d', s')"
    by (cases "update (Some ''u1'') ?p ex_store") auto
  from update_merges_settings [OF g n u]
  have "settings d' = Some (fmap_of_list [(''a'', PInt 1), (''b'', PInt 3), (''c'', PInt 4)]) \<and>
        get_domain_dashboard ''dash-1'' ''dom-1'' None s' = Inr d'"
    by simp
  then show ?thesis using ex_get u by simp
qed

text \<open>
  C8 on the small store: the owner's delete leaves both collections empty.
\<close>

theorem delete_cascades_witness:
  "get_domain_dashboard ''dash-1'' ''dom-1'' None ex_store = Inr ex_dashboard \<and>
   \<not> denied ex_dashboard (Some ''u1'') \<and>
   delete (Some ''u1'') ex_params ex_store = Inr ((), \<lparr>dashboards = [], versions = []\<rparr>) \<and>
   get_domain_dashboard ''dash-1'' ''dom-1'' None \<lparr>dashboards = [], versions = []\<rparr>
     = Inl ERROR_NOT_FOUND \<and>
   version_mgr_get_version ''dash-1'' 1 ''dom-1'' None \<lparr>dashboards = [], versions = []\<rparr>
     = Inl ERROR_NOT_FOUND"
proof -
  have g: "get_domain_dashboard (p_dashboard_id ex_params) (p_domain_id ex_params) None ex_store
      = Inr ex_dashboard"
    using ex_get by simp
  have a: "\<not> denied ex_dashboard (Some ''u1'')"
    by (simp add: denied_def)
  have e: "delete_by_domain_dashboard_vo ex_dashboard
             (ex_store\<lparr>versions :=
                filter (\<lambda>v. v_dashboard_id v \<noteq> dashboard_id ex_dashboard) (versions ex_store)\<rparr>)
           = \<lparr>dashboards = [], versions = []\<rparr>"
    by (simp add: delete_by_domain_dashboard_vo_def ex_store_def ex_version_def same_dashboard_def)
  show ?thesis
    using ex_get a delete_cascades [OF g a] e by simp
qed

text \<open>
  C8 as it was stated fails for a caller who is not the owner of a private dashboard:
  \<open>delete\<close> raises \<open>ERROR_PERMISSION_DENIED\<close>, and the record and its snapshot of version
  1 can still be fetched.
\<close>

theorem delete_cascades_counterexample:
  "get_domain_dashboard ''dash-1'' ''dom-1'' None ex_store = Inr ex_dashboard \<and>
   delete (Some ''u2'') ex_params ex_store = Inl ERROR_PERMISSION_DENIED \<and>
   get_domain_dashboard ''dash-1'' ''dom-1'' None
     (store_after (delete (Some ''u2'') ex_params ex_store) ex_store) = Inr ex_dashboard \<and>
   version_mgr_get_version ''dash-1'' 1 ''dom-1'' None
     (store_after (delete (Some ''u2'') ex_params ex_store) ex_store) = Inr (ex_version 1 ''w0'')"
  using ex_get ex_get_version_1 by (simp add: delete_def store_after_def)

text \<open>
  C9 on two requests: a supplied clause on \<open>name\<close> is followed by the ownership clause of
  user \<open>u1\<close>; with no query at all the filter is the ownership clause alone.
\<close>

theorem list_stat_ownership_filter_witness:
  "q_filter (list_op (\<lambda>q _. q) (Some ''u1'')
      (ex_params\<lparr>p_query := Some \<lparr>q_filter = Some [\<lparr>f_k = ''name'', f_v = PStr ''main'', f_o = ''eq''\<rparr>],
                                 q_other = fmempty\<rparr>\<rparr>) ex_store) =
     Some [\<lparr>f_k = ''name'', f_v = PStr ''main'', f_o = ''eq''\<rparr>,
           \<lparr>f_k = ''user_id'', f_v = PList [PStr ''u1'', PNone], f_o = ''in''\<rparr>] \<and>
   q_filter (stat (\<lambda>q _. q) None ex_params ex_store) =
     Some [\<lparr>f_k = ''user_id'', f_v = PList [PNone, PNone], f_o = ''in''\<rparr>]"
  using list_stat_ownership_filter
      [of "\<lambda>q _. q" "Some ''u1''"
          "ex_params\<lparr>p_query := Some \<lparr>q_filter = Some [\<lparr>f_k = ''name'', f_v = PStr ''main'', f_o = ''eq''\<rparr>],
                                 q_other = fmempty\<rparr>\<rparr>" ex_store "\<lambda>q _. q"]
    list_stat_ownership_filter [of "\<lambda>q _. q" None ex_params ex_store "\<lambda>q _. q"]
  by simp

end
